theory Spec2Isabelle
  imports Complex_Main "HOL-Library.Log_Nat"
begin

section \<open>Python values\<close>

text \<open>
  The handlers of \<^verbatim>\<open>src/events/handler.py\<close> are embedded as HOL functions. An exception
  that leaves a function is the \<open>Inl\<close> side of its result; the persistent tables and
  the calls made to external services are an explicit world that every handler takes
  and returns.
\<close>

datatype py_error =
  KeyError | TypeError | ZeroDivisionError | OverflowError | ValueError | JSONDecodeError
  | ClientError | EndpointConnectionError

text \<open>A parsed JSON document, as \<^verbatim>\<open>json.loads\<close> returns it.\<close>

datatype json =
  JNull | JBool bool | JInt int | JFloat rat | JStr string
  | JArr "json list" | JObj "(string \<times> json) list"

text \<open>\<^verbatim>\<open>value[key]\<close> with a string key: only a dict can be subscripted that way.\<close>

fun py_getitem :: "json \<Rightarrow> string \<Rightarrow> py_error + json" where
  "py_getitem (JObj kvs) k = (case map_of kvs k of None \<Rightarrow> Inl KeyError | Some v \<Rightarrow> Inr v)"
| "py_getitem v k = Inl TypeError"

text \<open>\<^verbatim>\<open>str(n)\<close> for an integer, and the format \<^verbatim>\<open>{:02d}\<close>.\<close>

definition digit_char :: "nat \<Rightarrow> char" where
  "digit_char n = ''0123456789'' ! n"

fun str_nat :: "nat \<Rightarrow> string" where
  "str_nat n = (if n < 10 then [digit_char n] else str_nat (n div 10) @ [digit_char (n mod 10)])"

declare str_nat.simps [simp del]

definition str_int :: "int \<Rightarrow> string" where
  "str_int i = (if i < 0 then CHR ''-'' # str_nat (nat (- i)) else str_nat (nat i))"

definition format_02d :: "int \<Rightarrow> string" where
  "format_02d i = (let s = str_int i in replicate (2 - length s) CHR ''0'' @ s)"

section \<open>Data model\<close>

text \<open>
  A Python float: a finite binary64 value in sign and magnitude (so that the two zeros
  are told apart), an infinity, or a NaN.
\<close>

datatype pyfloat = Finite bool rat | Infinity bool | NaN

text \<open>What the handlers return to the gateway.\<close>

record response =
  statusCode :: int
  body :: string

text \<open>
  An entry of the gateway event: the key can be missing from the dictionary, and when it is
  there its value can be \<^verbatim>\<open>None\<close> (the gateway writes \<^verbatim>\<open>null\<close> for a request without query
  string or without body) or a value of the entry's type.
\<close>

datatype 'a py_entry = Missing | PyNone | Entry 'a

text \<open>
  The gateway event of the two HTTP handlers, with the two entries they read:
  \<^verbatim>\<open>queryStringParameters\<close>, a dictionary from names to strings, and \<^verbatim>\<open>body\<close>, a string.
\<close>

record http_event =
  queryStringParameters :: "(string \<rightharpoonup> string) py_entry"
  event_body :: "string py_entry"

text \<open>The event the processor consumes (the decoded notification).\<close>

record activity_event =
  object_type :: string
  object_id :: int
  aspect_type :: string
  owner_id :: int

text \<open>
  An item of the users table, without its key attribute \<^verbatim>\<open>id\<close> (the table is keyed by
  it); the JSON body of a successful token refresh carries the same three entries.
\<close>

record credential =
  access_token :: string
  refresh_token :: string
  expires_at :: int

record oauth_response =
  status_code :: int
  response_body :: credential

text \<open>An item of the messages table.\<close>

record delivery_record =
  activity_id :: int
  message_id :: int

text \<open>The two records fetched from the activity provider, with the entries the code reads.\<close>

record activity =
  act_id :: int
  act_name :: string
  distance :: pyfloat
  moving_time :: int
  average_speed :: pyfloat
  total_elevation_gain :: pyfloat
  act_type :: string
  start_date :: string

record athlete =
  ath_id :: int
  firstname :: string
  lastname :: string
  profile_medium :: string

record py_datetime =
  dt_year :: nat
  dt_month :: nat
  dt_day :: nat
  dt_hour :: nat
  dt_minute :: nat
  dt_second :: nat

text \<open>\<^verbatim>\<open>discord.Embed\<close>: the display message.\<close>

record embed_author =
  author_name :: string
  author_url :: string
  author_icon_url :: string

record embed_footer =
  footer_text :: string
  footer_icon_url :: string

record embed_field =
  field_name :: string
  field_value :: string
  field_inline :: bool

record embed =
  title :: string
  url :: string
  colour :: nat
  timestamp :: py_datetime
  author :: embed_author
  footer :: embed_footer
  embed_fields :: "embed_field list"

text \<open>
  What \<^verbatim>\<open>get_token_for_athlete\<close> returns: the access token, or on a failed refresh the
  dictionary \<^verbatim>\<open>{"statusCode": ..., "body": ...}\<close>.
\<close>

datatype token_result = AccessToken string | FailureResponse response

section \<open>Python float arithmetic\<close>

text \<open>
  Binary64 arithmetic on magnitudes, computed exactly on rationals. \<open>rnd64 x\<close> is the
  binary64 value nearest to \<open>x \<ge> 0\<close> (ties to even, subnormals included, the exponent
  not bounded above: \<open>to_float\<close> turns a result of \<open>2 ^ 1024\<close> or more into an infinity).
  \<open>float_truediv\<close>, \<open>float_mul\<close> and \<open>int_truediv\<close> are the operators \<^verbatim>\<open>/\<close> and \<^verbatim>\<open>*\<close>
  on floats and \<^verbatim>\<open>/\<close> on integers (correctly rounded); \<open>py_round\<close> is
  \<^verbatim>\<open>round(x, ndigits)\<close> for \<open>ndigits \<ge> 0\<close> (the decimal nearest to the exact value of \<open>x\<close>,
  ties to even, converted back to a float); \<open>divmod1\<close> is \<^verbatim>\<open>divmod(x, 1)\<close>; \<open>py_int\<close> is
  \<^verbatim>\<open>int(x)\<close>; \<open>py_str_float\<close> is \<^verbatim>\<open>str(x)\<close>, the shortest decimal that reads back as
  \<open>x\<close>, in the layout of \<^verbatim>\<open>repr\<close>.
\<close>

definition round_half_even :: "rat \<Rightarrow> int" where
  "round_half_even x =
     (let f = \<lfloor>x\<rfloor>; d = x - of_int f
      in if d < 1 / 2 then f else if 1 / 2 < d then f + 1 else if even f then f else f + 1)"

definition ilog :: "nat \<Rightarrow> rat \<Rightarrow> int" where
  "ilog b x =
     (if 1 \<le> x then int (floorlog b (nat \<lfloor>x\<rfloor>)) - 1
      else - int (floorlog b (nat (\<lceil>1 / x\<rceil> - 1))))"

definition rnd64 :: "rat \<Rightarrow> rat" where
  "rnd64 x =
     (if x = 0 then 0
      else (let e = max (ilog 2 x - 52) (- 1074)
            in of_int (round_half_even (x / 2 powi e)) * 2 powi e))"

definition to_float :: "bool \<Rightarrow> rat \<Rightarrow> pyfloat" where
  "to_float neg x = (let r = rnd64 x in if 2 ^ 1024 \<le> r then Infinity neg else Finite neg r)"

definition float_literal :: "rat \<Rightarrow> pyfloat" where
  "float_literal x = to_float False x"

fun float_mul :: "pyfloat \<Rightarrow> pyfloat \<Rightarrow> pyfloat" where
  "float_mul (Finite s a) (Finite t b) = to_float (s \<noteq> t) (a * b)"
| "float_mul (Finite s a) (Infinity t) = (if a = 0 then NaN else Infinity (s \<noteq> t))"
| "float_mul (Infinity s) (Finite t b) = (if b = 0 then NaN else Infinity (s \<noteq> t))"
| "float_mul (Infinity s) (Infinity t) = Infinity (s \<noteq> t)"
| "float_mul NaN y = NaN"
| "float_mul x NaN = NaN"

fun float_truediv :: "pyfloat \<Rightarrow> pyfloat \<Rightarrow> py_error + pyfloat" where
  "float_truediv (Finite s a) (Finite t b) =
     (if b = 0 then Inl ZeroDivisionError else Inr (to_float (s \<noteq> t) (a / b)))"
| "float_truediv (Infinity s) (Finite t b) =
     (if b = 0 then Inl ZeroDivisionError else Inr (Infinity (s \<noteq> t)))"
| "float_truediv NaN (Finite t b) = (if b = 0 then Inl ZeroDivisionError else Inr NaN)"
| "float_truediv (Finite s a) (Infinity t) = Inr (Finite (s \<noteq> t) 0)"
| "float_truediv (Infinity s) (Infinity t) = Inr NaN"
| "float_truediv NaN (Infinity t) = Inr NaN"
| "float_truediv x NaN = Inr NaN"

definition int_truediv :: "int \<Rightarrow> int \<Rightarrow> py_error + pyfloat" where
  "int_truediv a b =
     (if b = 0 then Inl ZeroDivisionError
      else (let r = rnd64 (of_int \<bar>a\<bar> / of_int \<bar>b\<bar>)
            in if 2 ^ 1024 \<le> r then Inl OverflowError
               else Inr (Finite ((a < 0) \<noteq> (b < 0)) r)))"

fun py_round :: "pyfloat \<Rightarrow> nat \<Rightarrow> py_error + pyfloat" where
  "py_round (Finite s m) ndigits =
     (let r = rnd64 (of_int (round_half_even (m * 10 ^ ndigits)) / 10 ^ ndigits)
      in if 2 ^ 1024 \<le> r then Inl OverflowError else Inr (Finite s r))"
| "py_round x ndigits = Inr x"

fun divmod1 :: "pyfloat \<Rightarrow> pyfloat \<times> pyfloat" where
  "divmod1 (Finite s m) =
     (let f = \<lfloor>m\<rfloor>; r = m - of_int f
      in if \<not> s \<or> r = 0 then (Finite s (of_int f), Finite False r)
         else (to_float True (of_int f + 1), to_float False (1 - r)))"
| "divmod1 x = (NaN, NaN)"

fun py_int :: "pyfloat \<Rightarrow> py_error + int" where
  "py_int (Finite s m) = Inr (if s then - \<lfloor>m\<rfloor> else \<lfloor>m\<rfloor>)"
| "py_int (Infinity s) = Inl OverflowError"
| "py_int NaN = Inl ValueError"

definition round_trips :: "rat \<Rightarrow> rat \<Rightarrow> bool" where
  "round_trips m d = (rnd64 d = m)"

definition repr_candidate :: "rat \<Rightarrow> nat \<Rightarrow> rat option" where
  "repr_candidate m n =
     (let scale = 10 powi (ilog 10 m - int n + 1);
          lo = of_int \<lfloor>m / scale\<rfloor> * scale;
          hi = lo + scale
      in if round_trips m lo then
           (if round_trips m hi \<and> hi - m < m - lo then Some hi else Some lo)
         else if round_trips m hi then Some hi else None)"

primrec shortest_decimal :: "rat \<Rightarrow> nat list \<Rightarrow> rat option" where
  "shortest_decimal m [] = None"
| "shortest_decimal m (n # ns) =
     (case repr_candidate m n of Some d \<Rightarrow> Some d | None \<Rightarrow> shortest_decimal m ns)"

definition strip_zeros :: "string \<Rightarrow> string" where
  "strip_zeros ds = rev (dropWhile (\<lambda>c. c = CHR ''0'') (rev ds))"

definition format_repr :: "string \<Rightarrow> int \<Rightarrow> string" where
  "format_repr ds decpt =
     (let nd = int (length ds) in
      if decpt \<le> - 4 \<or> 16 < decpt then
        take 1 ds @ (if 1 < nd then CHR ''.'' # drop 1 ds else [])
        @ ''e'' @ (if decpt - 1 < 0 then ''-'' else ''+'') @ format_02d \<bar>decpt - 1\<bar>
      else if decpt \<le> 0 then ''0.'' @ replicate (nat (- decpt)) CHR ''0'' @ ds
      else if nd \<le> decpt then ds @ replicate (nat (decpt - nd)) CHR ''0'' @ ''.0''
      else take (nat decpt) ds @ CHR ''.'' # drop (nat decpt) ds)"

definition repr_magnitude :: "rat \<Rightarrow> string" where
  "repr_magnitude m =
     (if m = 0 then ''0.0''
      else (let d = (case shortest_decimal m [1..<18] of Some d \<Rightarrow> d | None \<Rightarrow> m);
                k = ilog 10 d;
                ds = strip_zeros (str_nat (nat \<lfloor>d / 10 powi (k - 16)\<rfloor>))
            in format_repr ds (k + 1)))"

fun py_str_float :: "pyfloat \<Rightarrow> string" where
  "py_str_float (Finite s m) = (if s then ''-'' else '''') @ repr_magnitude m"
| "py_str_float (Infinity s) = (if s then ''-inf'' else ''inf'')"
| "py_str_float NaN = ''nan''"




section \<open>The world and the environment\<close>

text \<open>The calls a handler makes to the services outside the program, in order.\<close>

datatype call =
  SnsPublish string string
  | TokenRefresh string string string
  | GetActivity string int
  | GetAthlete string
  | WebhookSend string string string embed
  | WebhookEdit int embed

record world =
  users :: "int \<rightharpoonup> credential"
  messages :: "int \<rightharpoonup> delivery_record"
  calls :: "call list"

text \<open>
  The answers of the outside: the configuration read from the process environment, the
  clock, the external services and the library functions \<^verbatim>\<open>json.loads\<close>, \<^verbatim>\<open>json.dumps\<close>
  and \<^verbatim>\<open>datetime.strptime\<close> (with the format \<^verbatim>\<open>%Y-%m-%dT%H:%M:%SZ\<close>). The clock is in
  seconds since the epoch, as \<^verbatim>\<open>expires_at\<close> is. A fetch answers \<open>None\<close> when the JSON it
  returns lacks the entries of the record (an error document).
\<close>

record env =
  CLIENT_ID :: string
  CLIENT_SECRET :: string
  ACTIVITY_TOPIC_ARN :: string
  now :: rat
  json_loads :: "string \<Rightarrow> json option"
  json_dumps :: "json \<Rightarrow> string"
  strptime :: "string \<Rightarrow> py_datetime option"
  sns_client :: "py_error option"
  sns_publish :: "string \<Rightarrow> py_error option"
  oauth_token :: "string \<Rightarrow> oauth_response"
  api_activity :: "string \<Rightarrow> int \<Rightarrow> activity option"
  api_athlete :: "string \<Rightarrow> athlete option"
  webhook_message_id :: "call list \<Rightarrow> int"

definition record_call :: "call \<Rightarrow> world \<Rightarrow> world" where
  "record_call c w = w\<lparr>calls := calls w @ [c]\<rparr>"

text \<open>The calls that reach the chat destination.\<close>

definition is_chat_call :: "call \<Rightarrow> bool" where
  "is_chat_call c = (case c of WebhookSend content username avatar em \<Rightarrow> True
                     | WebhookEdit mid em \<Rightarrow> True | _ \<Rightarrow> False)"

section \<open>Subscription validation and event intake\<close>

text \<open>
  \<^verbatim>\<open>subscribe\<close>. The lookup \<^verbatim>\<open>event["queryStringParameters"]["hub.challenge"]\<close> raises
  \<^verbatim>\<open>KeyError\<close> when either key is missing, which the handler answers with 400, and
  \<^verbatim>\<open>TypeError\<close> when the first entry is \<^verbatim>\<open>None\<close>, which the handler does not catch.
\<close>

definition subscribe :: "env \<Rightarrow> world \<Rightarrow> http_event \<Rightarrow> (py_error + response) \<times> world" where
  "subscribe e w event =
     (case queryStringParameters event of
        Missing \<Rightarrow> (Inr \<lparr>statusCode = 400, body = ''Invalid request''\<rparr>, w)
      | PyNone \<Rightarrow> (Inl TypeError, w)
      | Entry params \<Rightarrow>
          (case params ''hub.challenge'' of
             None \<Rightarrow> (Inr \<lparr>statusCode = 400, body = ''Invalid request''\<rparr>, w)
           | Some challenge \<Rightarrow>
               (Inr \<lparr>statusCode = 200,
                     body = json_dumps e (JObj [(''hub.challenge'', JStr challenge)])\<rparr>, w)))"

text \<open>
  \<^verbatim>\<open>receive_event\<close>. \<^verbatim>\<open>json.loads\<close> raises \<^verbatim>\<open>TypeError\<close> for \<^verbatim>\<open>None\<close>. In the \<^verbatim>\<open>try\<close> block the
  client is created and then the publish call is made; \<open>sns_client\<close> and \<open>sns_publish\<close>
  give the exception either of them ends with, if any. The handler catches \<^verbatim>\<open>ClientError\<close>
  (the constructor stands for the class and its subclasses) and nothing else: any other
  exception leaves the handler.
\<close>

definition receive_event :: "env \<Rightarrow> world \<Rightarrow> http_event \<Rightarrow> (py_error + response) \<times> world" where
  "receive_event e w event =
     (case event_body event of
        Missing \<Rightarrow> (Inl KeyError, w)
      | PyNone \<Rightarrow> (Inl TypeError, w)
      | Entry raw \<Rightarrow>
          (case json_loads e raw of
             None \<Rightarrow> (Inl JSONDecodeError, w)
           | Some parsed \<Rightarrow>
               (case py_getitem parsed ''object_type'' of
                  Inl err \<Rightarrow> (Inl err, w)
                | Inr type \<Rightarrow>
                    if type = JStr ''activity'' then
                      (case sns_client e of
                         Some err \<Rightarrow>
                           if err = ClientError
                           then (Inr \<lparr>statusCode = 200, body = ''Success''\<rparr>, w)
                           else (Inl err, w)
                       | None \<Rightarrow>
                           (let message = json_dumps e parsed;
                                w' = record_call (SnsPublish (ACTIVITY_TOPIC_ARN e) message) w
                            in case sns_publish e message of
                                 None \<Rightarrow> (Inr \<lparr>statusCode = 200, body = ''Success''\<rparr>, w')
                               | Some err \<Rightarrow>
                                   if err = ClientError
                                   then (Inr \<lparr>statusCode = 200, body = ''Success''\<rparr>, w')
                                   else (Inl err, w')))
                    else (Inr \<lparr>statusCode = 200, body = ''Success''\<rparr>, w))))"

section \<open>Credential resolver\<close>

definition get_token_for_athlete ::
  "env \<Rightarrow> world \<Rightarrow> int \<Rightarrow> (py_error + token_result) \<times> world" where
  "get_token_for_athlete e w athlete =
     (case users w athlete of
        None \<Rightarrow> (Inl KeyError, w)
      | Some item \<Rightarrow>
          (let expired = (of_int (expires_at item) < now e) in
           if expired then
             (let w1 = record_call
                         (TokenRefresh (CLIENT_ID e) (CLIENT_SECRET e) (refresh_token item)) w;
                  resp = oauth_token e (refresh_token item)
              in if status_code resp \<noteq> 200 then
                   (Inr (FailureResponse
                          \<lparr>statusCode = status_code resp,
                           body = ''Failed to get updated token for athlete''\<rparr>), w1)
                 else
                   (let item' = item\<lparr>access_token := access_token (response_body resp),
                                     refresh_token := refresh_token (response_body resp),
                                     expires_at := expires_at (response_body resp)\<rparr>
                    in (Inr (AccessToken (access_token (response_body resp))),
                        w1\<lparr>users := (users w1)(athlete \<mapsto> item')\<rparr>)))
           else (Inr (AccessToken (access_token item)), w)))"

text \<open>A finite binary64 magnitude: rounding leaves it alone and it is below \<open>2 ^ 1024\<close>.\<close>

definition binary64 :: "rat \<Rightarrow> bool" where
  "binary64 x \<longleftrightarrow> 0 \<le> x \<and> rnd64 x = x \<and> x < 2 ^ 1024"

section \<open>Building the display message\<close>

text \<open>
  The table of colours and the activity types shown with an average speed instead of a
  pace.
\<close>

definition activity_colours :: "(string \<times> nat) list" where
  "activity_colours =
     [(''Run'', 0xFC4C02), (''Ride'', 0x66C2FF), (''Hike'', 0x008000),
      (''RockClimbing'', 0xFF8000), (''AlpineSki'', 0xFEFEFE), (''BackcountrySki'', 0xFEFEFE),
      (''NordicSki'', 0xFEFEFE), (''Snowboard'', 0xFEFEFE), (''default'', 0xFC4C02)]"

definition use_speed :: "string list" where
  "use_speed = [''Ride'']"

text \<open>
  \<^verbatim>\<open>f"Bearer {access_token}"\<close>: the token itself, or the text of the failure dictionary
  when that is what the resolver returned.
\<close>

definition py_str_response :: "response \<Rightarrow> string" where
  "py_str_response r =
     ''{'' @ [CHR 0x27] @ ''statusCode'' @ [CHR 0x27] @ '': '' @ str_int (statusCode r) @ '', ''
     @ [CHR 0x27] @ ''body'' @ [CHR 0x27] @ '': '' @ [CHR 0x27] @ body r @ [CHR 0x27] @ ''}''"

definition bearer :: "token_result \<Rightarrow> string" where
  "bearer token =
     ''Bearer '' @ (case token of AccessToken s \<Rightarrow> s
                    | FailureResponse r \<Rightarrow> py_str_response r)"

text \<open>Lines 185 to 204: the displayed distance, moving time, pace and speed.\<close>

definition activity_distance_km :: "activity \<Rightarrow> py_error + pyfloat" where
  "activity_distance_km a =
     (case float_truediv (distance a) (Finite False 1000) of
        Inl err \<Rightarrow> Inl err
      | Inr q \<Rightarrow> py_round q 2)"

definition activity_moving_time :: "activity \<Rightarrow> string" where
  "activity_moving_time a =
     (let hours = moving_time a div 3600; rem = moving_time a mod 3600;
          minutes = rem div 60; seconds = rem mod 60
      in if hours \<noteq> 0
         then str_int hours @ '':'' @ format_02d minutes @ '':'' @ format_02d seconds
         else str_int minutes @ '':'' @ format_02d seconds)"

definition activity_pace :: "pyfloat \<Rightarrow> int \<Rightarrow> py_error + string" where
  "activity_pace distance_km mt =
     (case int_truediv mt 60 of
        Inl err \<Rightarrow> Inl err
      | Inr activity_minutes \<Rightarrow>
          (case float_truediv activity_minutes distance_km of
             Inl err \<Rightarrow> Inl err
           | Inr raw_pace \<Rightarrow>
               (case divmod1 raw_pace of
                  (pace_minutes, pace_fraction) \<Rightarrow>
                    (case py_round (float_mul pace_fraction (float_literal (6 / 10))) 2 of
                       Inl err \<Rightarrow> Inl err
                     | Inr pace_seconds \<Rightarrow>
                         (case py_int pace_minutes of
                            Inl err \<Rightarrow> Inl err
                          | Inr m \<Rightarrow>
                              (case py_int (float_mul pace_seconds (Finite False 100)) of
                                 Inl err \<Rightarrow> Inl err
                               | Inr s \<Rightarrow> Inr (str_int m @ '':'' @ format_02d s)))))))"

definition activity_speed_kmh :: "activity \<Rightarrow> py_error + pyfloat" where
  "activity_speed_kmh a = py_round (float_mul (average_speed a) (float_literal (36 / 10))) 1"

definition build_webhook_message ::
  "env \<Rightarrow> world \<Rightarrow> token_result \<Rightarrow> int \<Rightarrow> (py_error + embed) \<times> world" where
  "build_webhook_message e w token obj =
     (let w1 = record_call (GetActivity (bearer token) obj) w;
          w2 = record_call (GetAthlete (bearer token)) w1
      in case api_activity e (bearer token) obj of
           None \<Rightarrow> (Inl KeyError, w2)
         | Some a \<Rightarrow>
             (case activity_distance_km a of
                Inl err \<Rightarrow> (Inl err, w2)
              | Inr distance_km \<Rightarrow>
                  (case activity_pace distance_km (moving_time a) of
                     Inl err \<Rightarrow> (Inl err, w2)
                   | Inr pace \<Rightarrow>
                       (case activity_speed_kmh a of
                          Inl err \<Rightarrow> (Inl err, w2)
                        | Inr speed_kmh \<Rightarrow>
                            (case strptime e (start_date a) of
                               None \<Rightarrow> (Inl ValueError, w2)
                             | Some ts \<Rightarrow>
                                 (case api_athlete e (bearer token) of
                                    None \<Rightarrow> (Inl KeyError, w2)
                                  | Some ath \<Rightarrow>
                                      (Inr \<lparr>title = act_name a,
                                            url = ''https://strava.com/activities/'' @ str_int (act_id a),
                                            colour =
                                              (case map_of activity_colours (act_type a) of
                                                 Some c \<Rightarrow> c
                                               | None \<Rightarrow> 0xFC4C02),
                                            timestamp = ts,
                                            author =
                                              \<lparr>author_name = firstname ath @ '' '' @ lastname ath,
                                               author_url =
                                                 ''https://strava.com/athletes/'' @ str_int (ath_id ath),
                                               author_icon_url = profile_medium ath\<rparr>,
                                            footer =
                                              \<lparr>footer_text = ''Powered by Strava'',
                                               footer_icon_url =
                                                 ''https://d3nn82uaxijpm6.cloudfront.net/apple-touch-icon-144x144.png?v=dLlWydWlG8''\<rparr>,
                                            embed_fields =
                                              [\<lparr>field_name = ''Distance'',
                                                field_value = py_str_float distance_km @ '' km'',
                                                field_inline = True\<rparr>,
                                               \<lparr>field_name = ''Moving Time'',
                                                field_value = activity_moving_time a,
                                                field_inline = True\<rparr>,
                                               (if act_type a \<in> set use_speed
                                                then \<lparr>field_name = ''Average Speed'',
                                                      field_value = py_str_float speed_kmh @ '' km/h'',
                                                      field_inline = True\<rparr>
                                                else \<lparr>field_name = ''Pace'',
                                                      field_value = pace @ '' /km'',
                                                      field_inline = True\<rparr>),
                                               \<lparr>field_name = ''Elevation'',
                                                field_value =
                                                  py_str_float (total_elevation_gain a) @ '' m'',
                                                field_inline = True\<rparr>]\<rparr>, w2)))))))"

section \<open>Posting and editing\<close>

definition post_webhook :: "env \<Rightarrow> world \<Rightarrow> int \<Rightarrow> embed \<Rightarrow> (py_error + unit) \<times> world" where
  "post_webhook e w act em =
     (let w1 = record_call
                 (WebhookSend ''*A new activity was posted to Strava*'' ''Strava Webhook''
                    ''https://d3nn82uaxijpm6.cloudfront.net/mstile-144x144.png?v=dLlWydWlG8'' em) w;
          webhook_message = webhook_message_id e (calls w)
      in (Inr (),
          w1\<lparr>messages := (messages w1)(act \<mapsto>
                 \<lparr>activity_id = act, message_id = webhook_message\<rparr>)\<rparr>))"

text \<open>
  A call of \<^verbatim>\<open>post_webhook\<close> with positional arguments. The function has the two
  parameters \<^verbatim>\<open>(activity_id, embed)\<close>: with any other number of arguments Python raises
  \<^verbatim>\<open>TypeError\<close> before the body runs.
\<close>

datatype py_value = PyInt int | PyEmbed embed

definition post_webhook_call :: "env \<Rightarrow> world \<Rightarrow> py_value list \<Rightarrow> (py_error + unit) \<times> world" where
  "post_webhook_call e w args =
     (case args of
        [PyInt act, PyEmbed em] \<Rightarrow> post_webhook e w act em
      | _ \<Rightarrow> (Inl TypeError, w))"

text \<open>
  \<^verbatim>\<open>result.get("Item", {}).get("message_id")\<close> is the stored message id, or \<^verbatim>\<open>None\<close>
  without an item; the condition of the \<^verbatim>\<open>if\<close> is its truth value, which is false for
  \<^verbatim>\<open>None\<close> and for zero. The fallback is the call \<^verbatim>\<open>post_webhook(embed)\<close>.
\<close>

definition update_or_repost_webhook ::
  "env \<Rightarrow> world \<Rightarrow> int \<Rightarrow> embed \<Rightarrow> (py_error + unit) \<times> world" where
  "update_or_repost_webhook e w act em =
     (case map_option message_id (messages w act) of
        Some mid \<Rightarrow>
          if mid \<noteq> 0 then (Inr (), record_call (WebhookEdit mid em) w)
          else post_webhook_call e w [PyEmbed em]
      | None \<Rightarrow> post_webhook_call e w [PyEmbed em])"

section \<open>The processor\<close>

definition post_message :: "env \<Rightarrow> world \<Rightarrow> activity_event \<Rightarrow> (py_error + int) \<times> world" where
  "post_message e w ev =
     (case get_token_for_athlete e w (owner_id ev) of
        (Inl err, w1) \<Rightarrow> (Inl err, w1)
      | (Inr token, w1) \<Rightarrow>
          if object_type ev = ''activity'' then
            if aspect_type ev = ''create'' then
              (case build_webhook_message e w1 token (object_id ev) of
                 (Inl err, w2) \<Rightarrow> (Inl err, w2)
               | (Inr em, w2) \<Rightarrow>
                   (case post_webhook_call e w2 [PyInt (object_id ev), PyEmbed em] of
                      (Inl err, w3) \<Rightarrow> (Inl err, w3)
                    | (Inr u, w3) \<Rightarrow> (Inr 200, w3)))
            else if aspect_type ev = ''update'' then
              (case build_webhook_message e w1 token (object_id ev) of
                 (Inl err, w2) \<Rightarrow> (Inl err, w2)
               | (Inr em, w2) \<Rightarrow>
                   (case update_or_repost_webhook e w2 (object_id ev) em of
                      (Inl err, w3) \<Rightarrow> (Inl err, w3)
                    | (Inr u, w3) \<Rightarrow> (Inr 200, w3)))
            else (Inr 200, w1)
          else if object_type ev = ''athlete'' then (Inr 200, w1)
          else (Inr 200, w1))"

section \<open>The pace as the specification words it\<close>

text \<open>
  The specification's description of the pace, written out on binary64 values: the raw pace
  is the minutes (seconds over 60) per displayed kilometre; its integer part is the minutes
  field; its fractional part is multiplied by 0.6 and rounded to two decimals, and that value
  times 100, truncated, is the seconds field, printed with two digits.
\<close>

definition spec_raw_pace :: "int \<Rightarrow> rat \<Rightarrow> rat" where
  "spec_raw_pace mt km = rnd64 (rnd64 (of_int mt / 60) / km)"

definition spec_pace_seconds :: "rat \<Rightarrow> int" where
  "spec_pace_seconds fraction =
     (let scaled = rnd64 (fraction * rnd64 (6 / 10));
          rounded = rnd64 (of_int (round_half_even (scaled * 100)) / 100)
      in \<lfloor>rnd64 (rounded * 100)\<rfloor>)"

definition spec_pace :: "int \<Rightarrow> rat \<Rightarrow> string" where
  "spec_pace mt km =
     (let raw = spec_raw_pace mt km;
          minutes = \<lfloor>raw\<rfloor>;
          fraction = raw - of_int minutes
      in str_int minutes @ '':'' @ format_02d (spec_pace_seconds fraction))"

section \<open>Example inputs\<close>

text \<open>
  Concrete inputs on which the theorems below are instantiated: one athlete with a stored
  credential that expires at second 1000, an activity of 5 km in 25 minutes, and an
  environment whose clock reads 1000.
\<close>

definition example_credential :: credential where
  "example_credential = \<lparr>access_token = ''old'', refresh_token = ''r1'', expires_at = 1000\<rparr>"

definition example_world :: world where
  "example_world =
     \<lparr>users = [7 \<mapsto> example_credential], messages = Map.empty, calls = []\<rparr>"

definition example_activity :: activity where
  "example_activity =
     \<lparr>act_id = 42, act_name = ''Morning Run'', distance = Finite False 5000,
      moving_time = 1500, average_speed = Finite False 3,
      total_elevation_gain = Finite False 10, act_type = ''Run'',
      start_date = ''2021-01-01T08:00:00Z''\<rparr>"

definition example_athlete :: athlete where
  "example_athlete =
     \<lparr>ath_id = 7, firstname = ''Ada'', lastname = ''Runner'', profile_medium = ''avatar.png''\<rparr>"

text \<open>
  JSON texts: a notification body as a provider sends it, without spaces, the text
  \<^verbatim>\<open>json.dumps\<close> writes for the same document, with a space after each colon and comma,
  the body of an athlete notification, and the answer to the challenge \<^verbatim>\<open>abc\<close>.
\<close>

definition quoted :: "string \<Rightarrow> string" where
  "quoted s = CHR 0x22 # s @ [CHR 0x22]"

definition received_text :: string where
  "received_text =
     ''{'' @ quoted ''object_type'' @ '':'' @ quoted ''activity'' @ '','' @ quoted ''object_id''
     @ '':42}''"

definition dumped_text :: string where
  "dumped_text =
     ''{'' @ quoted ''object_type'' @ '': '' @ quoted ''activity'' @ '', '' @ quoted ''object_id''
     @ '': 42}''"

definition athlete_text :: string where
  "athlete_text = ''{'' @ quoted ''object_type'' @ '':'' @ quoted ''athlete'' @ ''}''"

definition challenge_text :: string where
  "challenge_text = ''{'' @ quoted ''hub.challenge'' @ '': '' @ quoted ''abc'' @ ''}''"

definition example_body :: json where
  "example_body = JObj [(''object_type'', JStr ''activity''), (''object_id'', JInt 42)]"

definition example_env :: env where
  "example_env =
     \<lparr>CLIENT_ID = ''client'', CLIENT_SECRET = ''secret'', ACTIVITY_TOPIC_ARN = ''topic'',
      now = 1000,
      json_loads = (\<lambda>s. if s = received_text \<or> s = dumped_text then Some example_body
                        else if s = athlete_text then Some (JObj [(''object_type'', JStr ''athlete'')])
                        else None),
      json_dumps = (\<lambda>j. if j = example_body then dumped_text
                        else if j = JObj [(''hub.challenge'', JStr ''abc'')] then challenge_text
                        else ''null''),
      strptime = (\<lambda>s. if s = ''2021-01-01T08:00:00Z''
                       then Some \<lparr>dt_year = 2021, dt_month = 1, dt_day = 1,
                                  dt_hour = 8, dt_minute = 0, dt_second = 0\<rparr>
                       else None),
      sns_client = None,
      sns_publish = (\<lambda>m. Some ClientError),
      oauth_token = (\<lambda>r. \<lparr>status_code = 200,
                           response_body = \<lparr>access_token = ''new'', refresh_token = ''r2'',
                                            expires_at = 5000\<rparr>\<rparr>),
      api_activity = (\<lambda>h obj. if h = ''Bearer old'' \<or> h = ''Bearer new''
                             then Some example_activity else None),
      api_athlete = (\<lambda>h. if h = ''Bearer old'' \<or> h = ''Bearer new''
                          then Some example_athlete else None),
      webhook_message_id = (\<lambda>cs. 900 + int (length cs))\<rparr>"

text \<open>An event of owner 7 about object 42, and the message built for the example activity.\<close>

definition example_event :: "string \<Rightarrow> string \<Rightarrow> activity_event" where
  "example_event otype aspect = \<lparr>object_type = otype, object_id = 42, aspect_type = aspect, owner_id = 7\<rparr>"

definition example_embed :: embed where
  "example_embed =
     \<lparr>title = ''Morning Run'', url = ''https://strava.com/activities/42'', colour = 0xFC4C02,
      timestamp = \<lparr>dt_year = 2021, dt_month = 1, dt_day = 1,
                   dt_hour = 8, dt_minute = 0, dt_second = 0\<rparr>,
      author = \<lparr>author_name = ''Ada Runner'', author_url = ''https://strava.com/athletes/7'',
                author_icon_url = ''avatar.png''\<rparr>,
      footer = \<lparr>footer_text = ''Powered by Strava'',
                footer_icon_url =
                  ''https://d3nn82uaxijpm6.cloudfront.net/apple-touch-icon-144x144.png?v=dLlWydWlG8''\<rparr>,
      embed_fields =
        [\<lparr>field_name = ''Distance'', field_value = ''5.0 km'', field_inline = True\<rparr>,
         \<lparr>field_name = ''Moving Time'', field_value = ''25:00'', field_inline = True\<rparr>,
         \<lparr>field_name = ''Pace'', field_value = ''5:00 /km'', field_inline = True\<rparr>,
         \<lparr>field_name = ''Elevation'', field_value = ''10.0 m'', field_inline = True\<rparr>]\<rparr>"

text \<open>An environment whose clock is past the expiry and whose token endpoint answers 401.\<close>

definition failing_env :: env where
  "failing_env =
     example_env\<lparr>now := 1001,
       oauth_token := (\<lambda>r. \<lparr>status_code = 401, response_body = example_credential\<rparr>)\<rparr>"

text \<open>An activity of 3 metres, and an environment whose provider answers with it.\<close>

definition short_activity :: activity where
  "short_activity = example_activity\<lparr>distance := Finite False 3\<rparr>"

definition short_env :: env where
  "short_env = example_env\<lparr>api_activity := (\<lambda>h obj. Some short_activity)\<rparr>"

text \<open>
  A validation request whose query parameters are \<^verbatim>\<open>None\<close>, an environment whose publish
  call ends with a connection error, and one whose publish call succeeds.
\<close>

definition null_query_event :: http_event where
  "null_query_event = \<lparr>queryStringParameters = PyNone, event_body = PyNone\<rparr>"

definition unreachable_env :: env where
  "unreachable_env = example_env\<lparr>sns_publish := (\<lambda>m. Some EndpointConnectionError)\<rparr>"

definition reachable_env :: env where
  "reachable_env = example_env\<lparr>sns_publish := (\<lambda>m. None)\<rparr>"




section \<open>Frame lemmas\<close>

lemma build_webhook_message_world:
  "snd (build_webhook_message e w token obj) =
     record_call (GetAthlete (bearer token)) (record_call (GetActivity (bearer token) obj) w)"
  by (simp add: build_webhook_message_def Let_def split: option.splits sum.splits)

lemma get_token_for_athlete_messages:
  "messages (snd (get_token_for_athlete e w a)) = messages w"
  by (simp add: get_token_for_athlete_def record_call_def Let_def split: option.splits)

section \<open>Facts about the float arithmetic\<close>

text \<open>\<open>ilog b x\<close> is the exponent of the power of \<open>b\<close> at or below a positive \<open>x\<close>.\<close>

lemma ilog_bounds_ge1:
  fixes x :: rat
  assumes x: "1 \<le> x" and b: "1 < b"
  shows "of_nat b powi ilog b x \<le> x \<and> x < of_nat b powi (ilog b x + 1)"
proof -
  define n where "n = nat \<lfloor>x\<rfloor>"
  define L where "L = floorlog b n"
  have n: "0 < n" using x by (simp add: n_def)
  have L: "0 < L" using n b by (simp add: floorlog_def L_def)
  have il: "ilog b x = int L - 1" using x by (simp add: ilog_def n_def L_def)
  have nx: "(of_nat n :: rat) \<le> x" using x by (simp add: n_def)
  have xn: "x < of_nat n + 1" using x by (simp add: n_def) linarith
  have "b ^ (L - 1) \<le> n" using floorlog_bounds [OF n b] by (simp add: L_def)
  then have "(of_nat b :: rat) ^ (L - 1) \<le> of_nat n" by (simp flip: of_nat_power)
  with nx have lo: "(of_nat b :: rat) ^ (L - 1) \<le> x" by linarith
  have "n < b ^ L" using floorlog_bounds [OF n b] by (simp add: L_def)
  then have "n + 1 \<le> b ^ L" by simp
  then have "(of_nat n :: rat) + 1 \<le> of_nat b ^ L"
    by (metis of_nat_le_iff of_nat_power of_nat_add of_nat_1)
  with xn have hi: "x < (of_nat b :: rat) ^ L" by linarith
  have e1: "nat (int L - 1) = L - 1" using L by simp
  show ?thesis using lo hi L by (simp add: il power_int_def e1)
qed

lemma ilog_bounds_lt1:
  fixes x :: rat
  assumes x0: "0 < x" and x1: "x < 1" and b: "1 < b"
  shows "of_nat b powi ilog b x \<le> x \<and> x < of_nat b powi (ilog b x + 1)"
proof -
  define y where "y = 1 / x"
  define c where "c = \<lceil>y\<rceil>"
  define n where "n = nat (c - 1)"
  define L where "L = floorlog b n"
  have y1: "1 < y" using x0 x1 by (simp add: y_def)
  have c2: "2 \<le> c" using y1 unfolding c_def by linarith
  have n: "0 < n" using c2 by (simp add: n_def)
  have L: "0 < L" using n b by (simp add: floorlog_def L_def)
  have il: "ilog b x = - int L" using x1 by (simp add: ilog_def n_def L_def c_def y_def)
  have yc: "y \<le> of_int c" by (simp add: c_def)
  have cy: "of_int c - 1 < y" unfolding c_def by linarith
  have nc: "(of_nat n :: rat) = of_int c - 1" using c2 by (simp add: n_def)
  have "b ^ (L - 1) \<le> n" using floorlog_bounds [OF n b] by (simp add: L_def)
  then have "(of_nat b :: rat) ^ (L - 1) \<le> of_nat n" by (simp flip: of_nat_power)
  with cy nc have lo: "(of_nat b :: rat) ^ (L - 1) < y" by linarith
  have "n < b ^ L" using floorlog_bounds [OF n b] by (simp add: L_def)
  then have "n + 1 \<le> b ^ L" by simp
  then have "(of_nat n :: rat) + 1 \<le> of_nat b ^ L"
    by (metis of_nat_le_iff of_nat_power of_nat_add of_nat_1)
  with yc nc have hi: "y \<le> (of_nat b :: rat) ^ L" by linarith
  have bpos: "0 < (of_nat b :: rat)" using b by simp
  have p1: "0 < (of_nat b :: rat) ^ L" and p2: "0 < (of_nat b :: rat) ^ (L - 1)"
    using bpos by simp_all
  have A: "1 / (of_nat b :: rat) ^ L \<le> x"
    using hi x0 p1 by (simp add: y_def field_simps)
  have B: "x < 1 / (of_nat b :: rat) ^ (L - 1)"
    using lo x0 p2 by (simp add: y_def field_simps)
  have e1: "(of_nat b :: rat) powi (- int L) = 1 / of_nat b ^ L"
    by (simp add: power_int_minus_divide)
  have e2: "(of_nat b :: rat) powi (- int L + 1) = 1 / of_nat b ^ (L - 1)"
  proof -
    have "- int L + 1 = - int (L - 1)" using L by simp
    then show ?thesis by (simp only: power_int_minus_divide power_int_of_nat)
  qed
  show ?thesis using A B by (simp only: il e1 e2) 
qed

lemma ilog_bounds:
  fixes x :: rat
  assumes "0 < x" and "1 < b"
  shows "of_nat b powi ilog b x \<le> x \<and> x < of_nat b powi (ilog b x + 1)"
  using assms ilog_bounds_ge1 [of x b] ilog_bounds_lt1 [of x b]
  by (cases "1 \<le> x") simp_all

lemma ilog_eq:
  fixes x :: rat
  assumes b: "1 < b" and lo: "of_nat b powi k \<le> x" and hi: "x < of_nat b powi (k + 1)"
  shows "ilog b x = k"
proof -
  have bb: "1 < (of_nat b :: rat)" using b by simp
  have x: "0 < x"
  proof -
    have "0 < (of_nat b :: rat) powi k" using bb by (simp add: power_int_def)
    with lo show ?thesis by linarith
  qed
  note B = ilog_bounds [OF x b]
  have "(of_nat b :: rat) powi ilog b x < of_nat b powi (k + 1)" using B hi by linarith
  then have 1: "ilog b x < k + 1" using bb power_int_strict_increasing
    by (metis linorder_not_less power_int_increasing less_imp_le)
  have "(of_nat b :: rat) powi k < of_nat b powi (ilog b x + 1)" using B lo by linarith
  then have 2: "k < ilog b x + 1" using bb
    by (metis linorder_not_less power_int_increasing less_imp_le)
  from 1 2 show ?thesis by simp
qed


text \<open>Rounding half to even moves a value by at most one half.\<close>

lemma round_half_even_error: "\<bar>of_int (round_half_even z) - z\<bar> \<le> 1 / 2"
proof -
  have "of_int \<lfloor>z\<rfloor> \<le> z" "z < of_int \<lfloor>z\<rfloor> + 1" by linarith+
  then show ?thesis by (auto simp: round_half_even_def Let_def)
qed

lemma round_half_even_le: "z < of_int j + 1 / 2 \<Longrightarrow> round_half_even z \<le> j"
  using round_half_even_error [of z] by linarith

lemma round_half_even_ge: "of_int j - 1 / 2 < z \<Longrightarrow> j \<le> round_half_even z"
  using round_half_even_error [of z] by linarith

lemma round_half_even_zero: "0 \<le> z \<Longrightarrow> z \<le> 1 / 2 \<Longrightarrow> round_half_even z = 0"
proof -
  assume a: "0 \<le> z" "z \<le> 1 / 2"
  then have f: "\<lfloor>z\<rfloor> = 0" by linarith
  show ?thesis using a by (auto simp: round_half_even_def Let_def f)
qed

lemma rnd64_eval:
  assumes "2 powi k \<le> x" and "x < 2 powi (k + 1)" and "- 1022 \<le> k"
  shows "rnd64 x = of_int (round_half_even (x / 2 powi (k - 52))) * 2 powi (k - 52)"
proof -
  have il: "ilog 2 x = k" using ilog_eq [of 2 k x] assms by simp
  have "0 < (2::rat) powi k" by (simp add: power_int_def)
  with assms have x: "x \<noteq> 0" by linarith
  have m: "max (k - 52) (- 1074) = k - 52" using assms(3) by simp
  show ?thesis using x by (simp only: rnd64_def il m Let_def if_False)
qed

lemma floor_rat_numeral_div: "\<lfloor>numeral a / numeral b :: rat\<rfloor> = numeral a div numeral b"
  by (metis floor_divide_of_int_eq of_int_numeral)

lemmas rnd_eval = round_half_even_def Let_def floor_rat_numeral_div

text \<open>Rounding to binary64: the result is not negative, it is within half a unit in the last
  place of its argument, and a value with a significand below \<open>2 ^ 53\<close> is left alone.\<close>

lemma rnd64_nonneg: "0 \<le> x \<Longrightarrow> 0 \<le> rnd64 x"
proof -
  assume x: "0 \<le> x"
  show ?thesis
  proof (cases "x = 0")
    case True then show ?thesis by (simp add: rnd64_def)
  next
    case False
    define e where "e = max (ilog 2 x - 52) (- 1074)"
    have p: "0 < (2::rat) powi e" by (simp add: power_int_def)
    have "0 \<le> x / 2 powi e" using x p by simp
    then have "- 1 / 2 < x / 2 powi e" by linarith
    then have "0 \<le> round_half_even (x / 2 powi e)"
      using round_half_even_ge [of 0 "x / 2 powi e"] by simp
    then show ?thesis using False p
      by (simp add: rnd64_def Let_def e_def [symmetric])
  qed
qed

lemma rnd64_error:
  assumes x: "0 \<le> x"
  shows "\<bar>rnd64 x - x\<bar> \<le> x / 2 ^ 53 + 1 / 2 ^ 1075"
proof (cases "x = 0")
  case True then show ?thesis by (simp add: rnd64_def)
next
  case False
  then have xp: "0 < x" using x by simp
  define e where "e = max (ilog 2 x - 52) (- 1074)"
  define z where "z = x / 2 powi e"
  have p: "0 < (2::rat) powi e" by (simp add: power_int_def)
  have r: "rnd64 x = of_int (round_half_even z) * 2 powi e"
    using False by (simp add: rnd64_def Let_def e_def z_def)
  have xz: "x = z * 2 powi e" using p by (simp add: z_def)
  have "\<bar>rnd64 x - x\<bar> = \<bar>of_int (round_half_even z) - z\<bar> * 2 powi e"
  proof -
    have "rnd64 x - x = (of_int (round_half_even z) - z) * 2 powi e"
      by (simp add: r algebra_simps) (simp add: xz [symmetric])
    then show ?thesis using p by (simp add: abs_mult)
  qed
  also have "\<dots> \<le> (1 / 2) * 2 powi e"
    using round_half_even_error [of z] p by (simp add: mult_right_mono)
  finally have b: "\<bar>rnd64 x - x\<bar> \<le> 2 powi e / 2" by simp
  have "2 powi e / 2 \<le> x / 2 ^ 53 + 1 / 2 ^ 1075"
  proof (cases "ilog 2 x - 52 \<le> - 1074")
    case True
    then have "e = - 1074" by (simp add: e_def)
    then have "(2::rat) powi e / 2 = 1 / 2 ^ 1075" by (simp add: power_int_minus_divide)
    then show ?thesis using x by simp
  next
    case False
    then have e: "e = ilog 2 x - 52" by (simp add: e_def)
    have "(2::rat) powi ilog 2 x \<le> x" using ilog_bounds [OF xp, of 2] by simp
    moreover have "(2::rat) powi e = 2 powi ilog 2 x / 2 ^ 52"
      by (simp add: e power_int_diff)
    ultimately have "(2::rat) powi e / 2 \<le> x / 2 ^ 53" by simp
    then show ?thesis by simp
  qed
  with b show ?thesis by linarith
qed

lemma round_half_even_of_int: "round_half_even (of_int j) = j"
  by (simp add: round_half_even_def)

lemma rnd64_exact:
  assumes M: "0 < M" "M < 2 ^ 53" and e: "- 1074 \<le> e"
  shows "rnd64 (of_int M * 2 powi e) = of_int M * 2 powi e"
proof -
  define x :: rat where "x = of_int M * 2 powi e"
  define k where "k = ilog 2 x"
  define E where "E = max (k - 52) (- 1074)"
  have pe: "0 < (2::rat) powi e" by (simp add: power_int_def)
  have xp: "0 < x" using M pe by (simp add: x_def)
  have "(2::rat) powi k \<le> x" using ilog_bounds [OF xp, of 2] by (simp add: k_def)
  also have "x < 2 ^ 53 * 2 powi e"
  proof -
    have "(of_int M :: rat) < of_int (2 ^ 53)" using M(2) by (simp only: of_int_less_iff)
    then show ?thesis using pe by (simp add: x_def)
  qed
  also have "\<dots> = 2 powi (53 + e)" by (simp add: power_int_add)
  finally have "k < 53 + e"
    by (metis linorder_not_less power_int_increasing less_imp_le one_less_numeral_iff semiring_norm(76) order_less_irrefl)
  then have Ee: "E \<le> e" using e by (simp add: E_def)
  have "x / 2 powi E = of_int M * 2 powi (e - E)"
    by (simp add: x_def power_int_diff)
  also have "\<dots> = of_int (M * 2 ^ nat (e - E))"
    using Ee by (simp add: power_int_def)
  finally have z: "x / 2 powi E = of_int (M * 2 ^ nat (e - E))" .
  have "rnd64 x = of_int (round_half_even (x / 2 powi E)) * 2 powi E"
    using xp by (simp add: rnd64_def Let_def E_def k_def)
  also have "\<dots> = x / 2 powi E * 2 powi E"
    by (simp only: z round_half_even_of_int)
  also have "\<dots> = x" by (simp add: power_int_def)
  finally show ?thesis by (simp add: x_def)
qed

lemma rnd64_of_int: "0 \<le> n \<Longrightarrow> n < 2 ^ 53 \<Longrightarrow> rnd64 (of_int n) = of_int n"
  using rnd64_exact [of n 0] by (cases "n = 0") (simp_all add: rnd64_def)

lemma rnd64_numeral: "(numeral w :: int) < 2 ^ 53 \<Longrightarrow> rnd64 (numeral w) = numeral w"
  using rnd64_of_int [of "numeral w"] by simp

lemma rnd64_zero: "rnd64 0 = 0"
  by (simp add: rnd64_def)

lemma rnd64_one: "rnd64 1 = 1"
  using rnd64_of_int [of 1] by simp


section \<open>The example, evaluated\<close>

lemma example_distance_km: "activity_distance_km example_activity = Inr (Finite False 5)"
  by (simp add: activity_distance_km_def example_activity_def to_float_def rnd64_numeral
      round_half_even_def)

lemma lit06: "float_literal (3 / 5) = Finite False (5404319552844595 / 9007199254740992)"
  by (simp add: float_literal_def to_float_def rnd64_eval [where k = "- 1"] rnd_eval)

lemma lit36: "float_literal (18 / 5) = Finite False (8106479329266893 / 2251799813685248)"
  by (simp add: float_literal_def to_float_def rnd64_eval [where k = 1] rnd_eval)

lemmas str_eval = str_int_def format_02d_def str_nat.simps digit_char_def

lemma example_moving_time: "activity_moving_time example_activity = ''25:00''"
  by (simp add: activity_moving_time_def example_activity_def str_eval)

lemma ilog10_5: "ilog 10 5 = 0"
  by (rule ilog_eq) simp_all

lemma ilog10_10: "ilog 10 10 = 1"
  by (rule ilog_eq) simp_all

lemma example_speed_kmh: "activity_speed_kmh example_activity = Inr (Finite False (3039929748475085 / 281474976710656))"
  by (simp add: activity_speed_kmh_def example_activity_def lit36 to_float_def
      rnd64_eval [where k = 3] rnd_eval)

lemma example_pace: "activity_pace (Finite False 5) 1500 = Inr ''5:00''"
  by (simp add: activity_pace_def int_truediv_def to_float_def rnd64_numeral rnd64_zero lit06
      round_half_even_def str_eval)

lemma upt_Suc0_18:
  "[Suc 0..<18] = [Suc 0, 2, 3, 4, 5, 6, 7, 8, 9, 10, 11, 12, 13, 14, 15, 16, 17]"
  by (simp add: upt_conv_Cons)

lemma cand5: "repr_candidate 5 (Suc 0) = Some 5"
  by (simp add: repr_candidate_def round_trips_def ilog10_5 rnd64_numeral Let_def)

lemma short5: "shortest_decimal 5 [1..<18] = Some 5"
  by (simp add: upt_Suc0_18 cand5)

lemma digits5: "nat \<lfloor>(5::rat) / 10 powi (0 - 16)\<rfloor> = 50000000000000000"
  by (simp add: power_int_minus_divide)

lemma str5: "strip_zeros (str_nat 50000000000000000) = ''5''"
  by (simp add: strip_zeros_def str_nat.simps digit_char_def)

lemma repr5: "repr_magnitude 5 = ''5.0''"
  using short5 digits5 str5
  by (simp add: repr_magnitude_def ilog10_5 format_repr_def)

lemma cand10: "repr_candidate 10 (Suc 0) = Some 10"
  by (simp add: repr_candidate_def round_trips_def ilog10_10 rnd64_numeral Let_def)

lemma short10: "shortest_decimal 10 [1..<18] = Some 10"
  by (simp add: upt_Suc0_18 cand10)

lemma digits10: "nat \<lfloor>(10::rat) / 10 powi (1 - 16)\<rfloor> = 10000000000000000"
  by (simp add: power_int_minus_divide)

lemma str10: "strip_zeros (str_nat 10000000000000000) = ''1''"
  by (simp add: strip_zeros_def str_nat.simps digit_char_def)

lemma repr10: "repr_magnitude 10 = ''10.0''"
  using short10 digits10 str10
  by (simp add: repr_magnitude_def ilog10_10 format_repr_def)

lemma example_activity_fields:
  "distance example_activity = Finite False 5000" "moving_time example_activity = 1500"
  "total_elevation_gain example_activity = Finite False 10" "act_type example_activity = ''Run''"
  "act_name example_activity = ''Morning Run''" "act_id example_activity = 42"
  "start_date example_activity = ''2021-01-01T08:00:00Z''"
  by (simp_all add: example_activity_def)

lemma build_example:
  "build_webhook_message example_env w (AccessToken ''old'') 42 =
     (Inr example_embed,
      record_call (GetAthlete ''Bearer old'') (record_call (GetActivity ''Bearer old'' 42) w))"
proof -
  have a: "api_activity example_env ''Bearer old'' 42 = Some example_activity"
    and b: "api_athlete example_env ''Bearer old'' = Some example_athlete"
    and c: "strptime example_env ''2021-01-01T08:00:00Z'' =
              Some \<lparr>dt_year = 2021, dt_month = 1, dt_day = 1,
                    dt_hour = 8, dt_minute = 0, dt_second = 0\<rparr>"
    by (simp_all add: example_env_def)
  have d: "map_of activity_colours ''Run'' = Some 0xFC4C02"
    by (simp add: activity_colours_def)
  have e: "str_int 42 = ''42''" "str_int 7 = ''7''"
    by (simp_all add: str_eval)
  show ?thesis
    by (simp add: build_webhook_message_def bearer_def a b c d e example_distance_km example_pace example_speed_kmh example_moving_time repr5 repr10
        example_activity_fields example_embed_def example_athlete_def use_speed_def)
qed

lemma get_token_example:
  "get_token_for_athlete example_env (example_world\<lparr>messages := m\<rparr>) 7 =
     (Inr (AccessToken ''old''), example_world\<lparr>messages := m\<rparr>)"
  by (simp add: get_token_for_athlete_def example_env_def example_world_def
      example_credential_def)

lemma get_token_for_athlete_chat_calls:
  "filter is_chat_call (calls (snd (get_token_for_athlete e w a))) = filter is_chat_call (calls w)"
  by (simp add: get_token_for_athlete_def record_call_def Let_def is_chat_call_def
      split: option.splits)

lemma update_or_repost_webhook_fallback:
  assumes "messages w act = None"
  shows "update_or_repost_webhook e w act em = (Inl TypeError, w)"
  using assms by (simp add: update_or_repost_webhook_def post_webhook_call_def)

lemma update_or_repost_webhook_edit:
  assumes "messages w act = Some r" and "message_id r \<noteq> 0"
  shows "update_or_repost_webhook e w act em =
           (Inr (), record_call (WebhookEdit (message_id r) em) w)"
  using assms by (simp add: update_or_repost_webhook_def)


text \<open>
  What the processor does after the resolver returned a value, on a create or an update of
  an activity: the two fetches are made with the returned value in the header, and the users
  table is not written again.
\<close>

lemma post_webhook_call_frame:
  "users (snd (post_webhook_call e w args)) = users w
   \<and> (\<exists>rest. calls (snd (post_webhook_call e w args)) = calls w @ rest)"
  by (simp add: post_webhook_call_def post_webhook_def record_call_def Let_def
      split: list.splits py_value.splits)

lemma update_or_repost_webhook_frame:
  "users (snd (update_or_repost_webhook e w act em)) = users w
   \<and> (\<exists>rest. calls (snd (update_or_repost_webhook e w act em)) = calls w @ rest)"
  using post_webhook_call_frame [of e w "[PyEmbed em]"]
  by (simp add: update_or_repost_webhook_def record_call_def split: option.splits)

lemma post_message_after_token:
  assumes g: "get_token_for_athlete e w (owner_id ev) = (Inr token, w1)"
    and t: "object_type ev = ''activity''"
    and a: "aspect_type ev = ''create'' \<or> aspect_type ev = ''update''"
  shows "users (snd (post_message e w ev)) = users w1
       \<and> (\<exists>rest. calls (snd (post_message e w ev)) =
                    calls w1 @ [GetActivity (bearer token) (object_id ev),
                                GetAthlete (bearer token)] @ rest)"
proof -
  define w2 where
    "w2 = record_call (GetAthlete (bearer token))
            (record_call (GetActivity (bearer token) (object_id ev)) w1)"
  have b: "snd (build_webhook_message e w1 token (object_id ev)) = w2"
    by (simp add: w2_def build_webhook_message_world)
  have u: "users w2 = users w1"
    and c: "calls w2 = calls w1 @ [GetActivity (bearer token) (object_id ev),
                                   GetAthlete (bearer token)]"
    by (simp_all add: w2_def record_call_def)
  show ?thesis
  proof (cases "build_webhook_message e w1 token (object_id ev)")
    case (Pair r w2')
    then have w2': "w2' = w2" using b by simp
    show ?thesis
    proof (cases r)
      case (Inl err)
      then show ?thesis using g t a Pair w2' u c
        by (auto simp: post_message_def)
    next
      case (Inr em)
      have p: "users (snd (post_webhook_call e w2 [PyInt (object_id ev), PyEmbed em])) = users w2"
        "\<exists>rest. calls (snd (post_webhook_call e w2 [PyInt (object_id ev), PyEmbed em]))
                  = calls w2 @ rest"
        using post_webhook_call_frame [of e w2 "[PyInt (object_id ev), PyEmbed em]"] by simp_all
      have q: "users (snd (update_or_repost_webhook e w2 (object_id ev) em)) = users w2"
        "\<exists>rest. calls (snd (update_or_repost_webhook e w2 (object_id ev) em))
                  = calls w2 @ rest"
        using update_or_repost_webhook_frame [of e w2 "object_id ev" em] by simp_all
      have s1: "snd (post_message e w ev) =
                 (if aspect_type ev = ''create''
                  then snd (post_webhook_call e w2 [PyInt (object_id ev), PyEmbed em])
                  else snd (update_or_repost_webhook e w2 (object_id ev) em))"
        using g t a Pair w2' Inr
        by (auto simp: post_message_def split: prod.splits sum.splits)
      show ?thesis using p q u c by (auto simp: s1)
    qed
  qed
qed

lemma post_message_users:
  "users (snd (post_message e w ev)) = users (snd (get_token_for_athlete e w (owner_id ev)))"
proof (cases "get_token_for_athlete e w (owner_id ev)")
  case (Pair r w1)
  show ?thesis
  proof (cases r)
    case (Inl err)
    then show ?thesis using Pair by (simp add: post_message_def)
  next
    case (Inr token)
    show ?thesis
    proof (cases "object_type ev = ''activity''
                  \<and> (aspect_type ev = ''create'' \<or> aspect_type ev = ''update'')")
      case True
      then show ?thesis
        using post_message_after_token [of e w ev token w1] Pair Inr by simp
    next
      case False
      then show ?thesis using Pair Inr by (auto simp: post_message_def)
    qed
  qed
qed


section \<open>Distances that round to zero\<close>

text \<open>
  A binary64 value below 5 is at most \<open>5 - 1 / 2 ^ 50\<close>, its quotient by 1000 rounds to a
  value below 0.005, and \<^verbatim>\<open>round(_, 2)\<close> takes that to zero.
\<close>

lemma binary64_below_5:
  assumes b: "binary64 d" and d: "d < 5"
  shows "d \<le> 5 - 1 / 2 ^ 50"
proof (cases "d < 4")
  case True
  then show ?thesis by simp
next
  case False
  then have lo: "2 powi 2 \<le> d" by simp
  have hi: "d < 2 powi (2 + 1)" using d by simp
  define N where "N = round_half_even (d / 2 powi (2 - 52))"
  have "rnd64 d = of_int N * 2 powi (2 - 52)"
    using rnd64_eval [OF lo hi] by (simp add: N_def)
  then have e: "d = of_int N / 2 ^ 50"
    using b by (simp add: binary64_def power_int_minus_divide)
  then have "of_int N < (5 * 2 ^ 50 :: rat)" using d by (simp add: field_simps)
  then have "of_int N < (of_int (5 * 2 ^ 50) :: rat)" by simp
  then have "N < 5 * 2 ^ 50" by (simp only: of_int_less_iff)
  then have "N \<le> 5 * 2 ^ 50 - 1" by simp
  then have "(of_int N :: rat) \<le> of_int (5 * 2 ^ 50 - 1)" by (simp only: of_int_le_iff)
  then show ?thesis by (simp add: e field_simps)
qed

lemma short_distance_quotient:
  assumes b: "binary64 d" and d: "d < 5"
  shows "rnd64 (d / 1000) < 1 / 200"
proof -
  have d0: "0 \<le> d" using b by (simp add: binary64_def)
  have x0: "0 \<le> d / 1000" using d0 by simp
  have u: "d \<le> 5 - 1 / 2 ^ 50" using binary64_below_5 [OF b d] .
  have "rnd64 (d / 1000) \<le> d / 1000 + d / 1000 / 2 ^ 53 + 1 / 2 ^ 1075"
    using rnd64_error [OF x0] by linarith
  also have "\<dots> \<le> (5 - 1 / 2 ^ 50) / 1000 + (5 - 1 / 2 ^ 50) / 1000 / 2 ^ 53 + 1 / 2 ^ 1075"
    using u by (simp add: field_simps)
  also have "\<dots> < 1 / 200" by simp
  finally show ?thesis .
qed

lemma short_distance_km:
  assumes "distance a = Finite s d" and b: "binary64 d" and d: "d < 5"
  shows "activity_distance_km a = Inr (Finite s 0)"
proof -
  define q where "q = rnd64 (d / 1000)"
  have d0: "0 \<le> d" using b by (simp add: binary64_def)
  have q0: "0 \<le> q" using rnd64_nonneg [of "d / 1000"] d0 by (simp add: q_def)
  have q1: "q < 1 / 200" using short_distance_quotient [OF b d] by (simp add: q_def)
  have q2: "\<not> 2 ^ 1024 \<le> q" using q1 by simp
  have "0 \<le> q * 100" "q * 100 \<le> 1 / 2" using q0 q1 by simp_all
  then have r: "round_half_even (q * 100) = 0" by (rule round_half_even_zero)
  show ?thesis
    using q2 by (simp add: activity_distance_km_def assms(1) to_float_def q_def [symmetric]
        Let_def r rnd64_zero)
qed

lemma activity_pace_zero_distance:
  "activity_pace (Finite s 0) mt =
     Inl (if 2 ^ 1024 \<le> rnd64 (of_int \<bar>mt\<bar> / 60) then OverflowError else ZeroDivisionError)"
  by (simp add: activity_pace_def int_truediv_def Let_def)

lemma moving_time_in_range:
  assumes "\<bar>mt\<bar> < 2 ^ 1024"
  shows "\<not> 2 ^ 1024 \<le> rnd64 (of_int \<bar>mt\<bar> / 60)"
proof -
  define y :: rat where "y = of_int \<bar>mt\<bar> / 60"
  have "(of_int \<bar>mt\<bar> :: rat) < of_int (2 ^ 1024)" using assms by (simp only: of_int_less_iff)
  then have y1: "y < 2 ^ 1024 / 60" by (simp add: y_def)
  have y0: "0 \<le> y" by (simp add: y_def)
  have "rnd64 y \<le> y + y / 2 ^ 53 + 1 / 2 ^ 1075" using rnd64_error [OF y0] by linarith
  also have "\<dots> \<le> 2 * y + 1"
  proof -
    have "y / 2 ^ 53 \<le> y" using y0 by (simp add: field_simps)
    moreover have "(1::rat) / 2 ^ 1075 \<le> 1" by simp
    ultimately show ?thesis by linarith
  qed
  also have "\<dots> < 2 ^ 1024" using y1 by simp
  finally show ?thesis by (simp add: y_def)
qed

lemma py_int_not_zero_division: "py_int x \<noteq> Inl ZeroDivisionError"
  by (cases x) simp_all

lemma py_round_not_zero_division: "py_round x n \<noteq> Inl ZeroDivisionError"
  by (cases x) (simp_all add: Let_def)

lemma activity_pace_nonzero_distance:
  assumes "k \<noteq> 0"
  shows "activity_pace (Finite s k) mt \<noteq> Inl ZeroDivisionError"
  using assms py_int_not_zero_division py_round_not_zero_division
  by (auto simp: activity_pace_def int_truediv_def Let_def
      split: sum.splits prod.splits)


section \<open>Formatting facts\<close>

















text \<open>
  Bounds on a rounded value, the two-digit format, and the steps of the pace computation:
  none of them overflows, and the seconds field lies between 0 and 60.
\<close>

lemma rnd64_upper:
  assumes "0 \<le> x" and "x \<le> b"
  shows "rnd64 x \<le> b + b / 2 ^ 53 + 1 / 2 ^ 1075"
proof -
  have "rnd64 x \<le> x + x / 2 ^ 53 + 1 / 2 ^ 1075"
    using rnd64_error [OF assms(1)] by linarith
  moreover have "x / 2 ^ 53 \<le> b / 2 ^ 53"
    using assms(2) by (simp add: divide_right_mono)
  ultimately show ?thesis using assms(2) by linarith
qed

lemma rnd64_lower:
  assumes "0 \<le> b" and "b \<le> x"
  shows "b - b / 2 ^ 53 - 1 / 2 ^ 1075 \<le> rnd64 x"
proof -
  have x: "0 \<le> x" using assms by linarith
  have "x - x / 2 ^ 53 - 1 / 2 ^ 1075 \<le> rnd64 x"
    using rnd64_error [OF x] by linarith
  moreover have "b - b / 2 ^ 53 \<le> x - x / 2 ^ 53"
  proof -
    have "(x - b) / 2 ^ 53 \<le> x - b" using assms(2) by (simp add: field_simps)
    then show ?thesis by (simp add: diff_divide_distrib)
  qed
  ultimately show ?thesis by linarith
qed

lemma rnd64_3_5: "rnd64 (3 / 5) = 5404319552844595 / 9007199254740992"
  by (simp add: rnd64_eval [where k = "- 1"] rnd_eval)

lemma rnd64_6_10: "rnd64 (6 / 10) = 5404319552844595 / 9007199254740992"
  using rnd64_3_5 by simp

lemma rnd64_1_100: "rnd64 (1 / 100) = 5764607523034235 / 576460752303423488"
  by (simp add: rnd64_eval [where k = "- 7"] rnd_eval)

lemma length_str_nat_lt10: "n < 10 \<Longrightarrow> length (str_nat n) = 1"
  by (simp add: str_nat.simps)

lemma length_str_nat_lt100: "10 \<le> n \<Longrightarrow> n < 100 \<Longrightarrow> length (str_nat n) = 2"
  by (subst str_nat.simps) (simp add: length_str_nat_lt10)

lemma length_format_02d:
  assumes "0 \<le> i" and "i < 100"
  shows "length (format_02d i) = 2"
proof (cases "nat i < 10")
  case True
  then show ?thesis using assms by (simp add: format_02d_def str_int_def length_str_nat_lt10)
next
  case False
  then have "length (str_nat (nat i)) = 2" using assms by (simp add: length_str_nat_lt100)
  then show ?thesis using assms by (simp add: format_02d_def str_int_def)
qed

lemma displayed_distance_positive:
  assumes d: "distance a = Finite s d" and d0: "0 \<le> d"
    and k: "activity_distance_km a = Inr (Finite s' k)" and k0: "0 < k"
  shows "1 / 100 \<le> k"
proof -
  define q where "q = rnd64 (d / 1000)"
  define N where "N = round_half_even (q * 100)"
  have q0: "0 \<le> q" using rnd64_nonneg [of "d / 1000"] d0 by (simp add: q_def)
  have kk: "k = rnd64 (of_int N / 100)"
    using k by (simp add: activity_distance_km_def d to_float_def Let_def q_def [symmetric]
        N_def [symmetric] split: if_splits)
  have "- 1 / 2 < q * 100" using q0 by simp
  then have N0: "0 \<le> N" using round_half_even_ge [of 0 "q * 100"] by (simp add: N_def)
  have "N \<noteq> 0" using k0 by (auto simp: kk rnd64_zero)
  then consider "N = 1" | "2 \<le> N" using N0 by linarith
  then show ?thesis
  proof cases
    case 1
    then show ?thesis by (simp add: kk rnd64_1_100)
  next
    case 2
    then have "(of_int 2 :: rat) \<le> of_int N" by (simp only: of_int_le_iff)
    then have "(1 / 50 :: rat) \<le> of_int N / 100" by simp
    then have "(1 / 50 :: rat) - (1 / 50) / 2 ^ 53 - 1 / 2 ^ 1075 \<le> rnd64 (of_int N / 100)"
      by (rule rnd64_lower [rotated]) simp
    then show ?thesis by (simp add: kk)
  qed
qed

lemma pace_seconds_steps:
  assumes f0: "0 \<le> f" and f1: "f < 1"
  defines "p \<equiv> rnd64 (f * (5404319552844595 / 9007199254740992))"
  defines "ps \<equiv> rnd64 (of_int (round_half_even (p * 100)) / 100)"
  defines "t \<equiv> rnd64 (ps * 100)"
  shows "0 \<le> p \<and> p < 1 \<and> 0 \<le> ps \<and> ps < 1 \<and> 0 \<le> t \<and> t < 61"
proof -
  let ?c = "5404319552844595 / 9007199254740992 :: rat"
  have fc0: "0 \<le> f * ?c" using f0 by simp
  have fc1: "f * ?c \<le> ?c" using f0 f1 by simp
  have p0: "0 \<le> p" unfolding p_def using fc0 by (rule rnd64_nonneg)
  have "p \<le> ?c + ?c / 2 ^ 53 + 1 / 2 ^ 1075"
    unfolding p_def using fc0 fc1 by (rule rnd64_upper)
  then have p1: "p < 601 / 1000" by simp
  define N where "N = round_half_even (p * 100)"
  have "- 1 / 2 < p * 100" using p0 by simp
  then have N0: "0 \<le> N" using round_half_even_ge [of 0 "p * 100"] by (simp add: N_def)
  have "p * 100 < of_int 60 + 1 / 2" using p1 by simp
  then have N1: "N \<le> 60" unfolding N_def by (rule round_half_even_le)
  have n0: "(0::rat) \<le> of_int N / 100" using N0 by simp
  have "(of_int N :: rat) \<le> of_int 60" using N1 by (simp only: of_int_le_iff)
  then have n1: "(of_int N :: rat) / 100 \<le> 3 / 5" by simp
  have ps: "ps = rnd64 (of_int N / 100)" by (simp add: ps_def N_def)
  have ps0: "0 \<le> ps" unfolding ps using n0 by (rule rnd64_nonneg)
  have "ps \<le> 3 / 5 + (3 / 5) / 2 ^ 53 + 1 / 2 ^ 1075"
    unfolding ps using n0 n1 by (rule rnd64_upper)
  then have ps1: "ps < 601 / 1000" by simp
  have m0: "0 \<le> ps * 100" using ps0 by simp
  have m1: "ps * 100 \<le> 601 / 10" using ps1 by simp
  have t0: "0 \<le> t" unfolding t_def using m0 by (rule rnd64_nonneg)
  have "t \<le> 601 / 10 + (601 / 10) / 2 ^ 53 + 1 / 2 ^ 1075"
    unfolding t_def using m0 m1 by (rule rnd64_upper)
  then have t1: "t < 61" by simp
  show ?thesis using p0 p1 ps0 ps1 t0 t1 by simp
qed

lemma spec_pace_seconds_range:
  assumes "0 \<le> f" and "f < 1"
  shows "0 \<le> spec_pace_seconds f \<and> spec_pace_seconds f \<le> 60"
proof -
  define t where
    "t = rnd64 (rnd64 (of_int (round_half_even
            (rnd64 (f * (5404319552844595 / 9007199254740992)) * 100)) / 100) * 100)"
  have "0 \<le> t \<and> t < 61" using pace_seconds_steps [OF assms] by (simp add: t_def)
  then have "0 \<le> \<lfloor>t\<rfloor> \<and> \<lfloor>t\<rfloor> < 61" by (simp add: floor_less_iff)
  moreover have "spec_pace_seconds f = \<lfloor>t\<rfloor>"
    by (simp add: spec_pace_seconds_def rnd64_3_5 t_def)
  ultimately show ?thesis by simp
qed

lemma spec_raw_pace_range:
  assumes mt0: "0 \<le> mt" and mt1: "mt < 2 ^ 1000" and k: "1 / 100 \<le> k"
  shows "0 \<le> rnd64 (of_int mt / 60) \<and> rnd64 (of_int mt / 60) < 2 ^ 1024
       \<and> 0 \<le> spec_raw_pace mt k \<and> spec_raw_pace mt k < 2 ^ 1024"
proof -
  define am where "am = rnd64 (of_int mt / 60)"
  have x0: "(0::rat) \<le> of_int mt / 60" using mt0 by simp
  have "(of_int mt :: rat) \<le> of_int (2 ^ 1000)" using mt1 by (simp only: of_int_le_iff)
  then have x1: "(of_int mt :: rat) / 60 \<le> 2 ^ 1000" by simp
  have am0: "0 \<le> am" unfolding am_def using x0 by (rule rnd64_nonneg)
  have "am \<le> 2 ^ 1000 + 2 ^ 1000 / 2 ^ 53 + 1 / 2 ^ 1075"
    unfolding am_def using x0 x1 by (rule rnd64_upper)
  then have am1: "am \<le> 2 ^ 1001" by simp
  have kp: "0 < k" using k by simp
  have y0: "0 \<le> am / k" using am0 kp by simp
  have "am \<le> 100 * am * (k * 100) / 100" using am0 k
  proof -
    have "1 \<le> k * 100" using k by simp
    then have "am * 1 \<le> am * (k * 100)" using am0 by (rule mult_left_mono)
    then show ?thesis by simp
  qed
  then have "am / k \<le> 100 * am" using kp by (simp add: field_simps)
  then have y1: "am / k \<le> 100 * 2 ^ 1001" using am1 by simp
  have r0: "0 \<le> rnd64 (am / k)" using y0 by (rule rnd64_nonneg)
  have "rnd64 (am / k) \<le> 100 * 2 ^ 1001 + (100 * 2 ^ 1001) / 2 ^ 53 + 1 / 2 ^ 1075"
    using y0 y1 by (rule rnd64_upper)
  then have r1: "rnd64 (am / k) < 2 ^ 1024" by simp
  have "am < 2 ^ 1024" using am1 by simp
  then show ?thesis using am0 r0 r1 by (simp add: spec_raw_pace_def am_def)
qed

lemma activity_pace_two_step:
  assumes mt0: "0 \<le> mt" and mt1: "mt < 2 ^ 1000" and k: "1 / 100 \<le> k"
  shows "activity_pace (Finite False k) mt = Inr (spec_pace mt k)"
proof -
  let ?c = "5404319552844595 / 9007199254740992 :: rat"
  define am where "am = rnd64 (of_int mt / 60)"
  define raw where "raw = rnd64 (am / k)"
  define fl where "fl = \<lfloor>raw\<rfloor>"
  define f where "f = raw - of_int fl"
  define p where "p = rnd64 (f * ?c)"
  define ps where "ps = rnd64 (of_int (round_half_even (p * 100)) / 100)"
  define t where "t = rnd64 (ps * 100)"
  have R: "0 \<le> am" "am < 2 ^ 1024" "0 \<le> raw" "raw < 2 ^ 1024"
    using spec_raw_pace_range [OF assms] by (simp_all add: am_def raw_def spec_raw_pace_def)
  have f0: "0 \<le> f" and f1: "f < 1" unfolding f_def fl_def by linarith+
  have S: "0 \<le> p" "p < 1" "0 \<le> ps" "ps < 1" "0 \<le> t" "t < 61"
    using pace_seconds_steps [OF f0 f1] by (simp_all add: p_def ps_def t_def)
  have k0: "k \<noteq> 0" using k by auto
  have s1: "int_truediv mt 60 = Inr (Finite False am)"
    using mt0 R(2) by (simp add: int_truediv_def am_def Let_def)
  have s2: "float_truediv (Finite False am) (Finite False k) = Inr (Finite False raw)"
    using k0 R(4) by (simp add: to_float_def raw_def Let_def)
  have s3: "divmod1 (Finite False raw) = (Finite False (of_int fl), Finite False f)"
    by (simp add: fl_def f_def Let_def)
  have s4: "float_mul (Finite False f) (float_literal (6 / 10)) = Finite False p"
    using S(2) by (simp add: lit06 to_float_def p_def Let_def)
  have s5: "py_round (Finite False p) 2 = Inr (Finite False ps)"
    using S(4) by (simp add: ps_def Let_def)
  have s6: "py_int (Finite False (of_int fl)) = Inr fl"
    by simp
  have s7: "float_mul (Finite False ps) (Finite False 100) = Finite False t"
    using S(6) by (simp add: to_float_def t_def Let_def)
  have s8: "py_int (Finite False t) = Inr \<lfloor>t\<rfloor>"
    by simp
  have a: "activity_pace (Finite False k) mt = Inr (str_int fl @ '':'' @ format_02d \<lfloor>t\<rfloor>)"
    by (simp only: activity_pace_def s1 s2 s3 s4 s5 s6 s7 s8 sum.case prod.case)
  have b: "spec_pace mt k = str_int fl @ '':'' @ format_02d \<lfloor>t\<rfloor>"
    by (simp only: spec_pace_def spec_raw_pace_def spec_pace_seconds_def Let_def rnd64_6_10
        t_def ps_def p_def f_def fl_def raw_def am_def)
  show ?thesis by (simp only: a b)
qed

lemma spec_pace_1500_5: "spec_pace 1500 5 = ''5:00''"
  by (simp add: spec_pace_def spec_raw_pace_def spec_pace_seconds_def rnd64_numeral rnd64_zero
      round_half_even_def str_eval)

lemma spec_raw_pace_1645_5: "spec_raw_pace 1645 5 = 6173684489187055 / 1125899906842624"
  by (simp add: spec_raw_pace_def rnd64_eval [where k = 4] rnd64_eval [where k = 2] rnd_eval)

lemma spec_pace_seconds_1645_5: "spec_pace_seconds (544184954973935 / 1125899906842624) = 28"
  by (simp add: spec_pace_seconds_def rnd64_3_5 rnd64_eval [where k = "- 2"]
      rnd64_eval [where k = 4] rnd_eval)

lemma spec_pace_1645_5: "spec_pace 1645 5 = ''5:28''"
  by (simp add: spec_pace_def spec_raw_pace_1645_5 spec_pace_seconds_1645_5 rnd_eval str_eval)

section \<open>The example texts and the ride, evaluated\<close>

lemma json_texts_differ: "dumped_text \<noteq> received_text"
  by (simp add: dumped_text_def received_text_def quoted_def)

lemma example_json:
  "json_loads example_env received_text = Some example_body"
  "json_loads example_env athlete_text = Some (JObj [(''object_type'', JStr ''athlete'')])"
  "json_dumps example_env example_body = dumped_text"
  "json_dumps example_env (JObj [(''hub.challenge'', JStr ''abc'')]) = challenge_text"
  by (simp_all add: example_env_def example_body_def athlete_text_def received_text_def
      dumped_text_def quoted_def)






section \<open>Subscription validation\<close>

text \<open>
  C7. A validation request whose query parameters hold \<^verbatim>\<open>hub.challenge\<close> with value \<open>X\<close>
  is answered with status 200 and the JSON serialisation of the object
  \<^verbatim>\<open>{"hub.challenge": X}\<close>. A request whose event has no entry \<^verbatim>\<open>queryStringParameters\<close>, or
  whose parameters lack \<^verbatim>\<open>hub.challenge\<close>, is answered with status 400 and the body
  \<^verbatim>\<open>Invalid request\<close>. A request whose entry \<^verbatim>\<open>queryStringParameters\<close> is \<^verbatim>\<open>None\<close> is not
  answered: \<^verbatim>\<open>TypeError\<close> leaves the handler. In every case the world is the one the handler
  started with: no table is written and no external call is made.
\<close>

theorem subscribe_challenge:
  "(queryStringParameters event = Entry params \<and> params ''hub.challenge'' = Some X \<longrightarrow>
      subscribe e w event =
        (Inr \<lparr>statusCode = 200,
              body = json_dumps e (JObj [(''hub.challenge'', JStr X)])\<rparr>, w))
   \<and> ((queryStringParameters event = Missing
        \<or> (queryStringParameters event = Entry params \<and> params ''hub.challenge'' = None)) \<longrightarrow>
      subscribe e w event = (Inr \<lparr>statusCode = 400, body = ''Invalid request''\<rparr>, w))
   \<and> (queryStringParameters event = PyNone \<longrightarrow> subscribe e w event = (Inl TypeError, w))
   \<and> snd (subscribe e w event) = w"
  by (auto simp: subscribe_def split: py_entry.splits option.splits)

theorem subscribe_challenge_witness:
  "subscribe example_env example_world
     \<lparr>queryStringParameters = Entry [''hub.challenge'' \<mapsto> ''abc''], event_body = PyNone\<rparr> =
     (Inr \<lparr>statusCode = 200, body = challenge_text\<rparr>, example_world)
   \<and> subscribe example_env example_world
     \<lparr>queryStringParameters = Entry [''other'' \<mapsto> ''abc''], event_body = PyNone\<rparr> =
     (Inr \<lparr>statusCode = 400, body = ''Invalid request''\<rparr>, example_world)
   \<and> subscribe example_env example_world
     \<lparr>queryStringParameters = Missing, event_body = PyNone\<rparr> =
     (Inr \<lparr>statusCode = 400, body = ''Invalid request''\<rparr>, example_world)
   \<and> subscribe example_env example_world null_query_event = (Inl TypeError, example_world)"
  using
    subscribe_challenge [of "\<lparr>queryStringParameters = Entry [''hub.challenge'' \<mapsto> ''abc''],
                               event_body = PyNone\<rparr>"
                            "[''hub.challenge'' \<mapsto> ''abc'']" "''abc''" example_env example_world]
    subscribe_challenge [of "\<lparr>queryStringParameters = Entry [''other'' \<mapsto> ''abc''],
                               event_body = PyNone\<rparr>"
                            "[''other'' \<mapsto> ''abc'']" "''abc''" example_env example_world]
    subscribe_challenge [of "\<lparr>queryStringParameters = Missing, event_body = PyNone\<rparr>"
                            "Map.empty" "''abc''" example_env example_world]
    subscribe_challenge [of null_query_event "Map.empty" "''abc''" example_env example_world]
  by (simp add: example_json null_query_event_def)

section \<open>Event intake\<close>

text \<open>
  C6, as the code has it. For an intake request whose body parses as JSON and has an entry
  \<^verbatim>\<open>object_type\<close>: when the entry is \<^verbatim>\<open>"activity"\<close> and the client is created, exactly one
  publish call is added, to the configured topic and with \<^verbatim>\<open>json.dumps\<close> of the parsed body
  as its message; the response is 200 when the publish succeeds and when it ends with
  \<^verbatim>\<open>ClientError\<close>, and an exception of any other class leaves the handler. For any other
  value of the entry no call is made, the world is unchanged and the response is 200.
\<close>

theorem receive_event_publish:
  assumes "event_body event = Entry raw"
    and "json_loads e raw = Some parsed"
    and "py_getitem parsed ''object_type'' = Inr t"
  shows "(t = JStr ''activity'' \<and> sns_client e = None \<longrightarrow>
           snd (receive_event e w event) =
             w\<lparr>calls := calls w @ [SnsPublish (ACTIVITY_TOPIC_ARN e) (json_dumps e parsed)]\<rparr>
           \<and> (sns_publish e (json_dumps e parsed) = None
                \<or> sns_publish e (json_dumps e parsed) = Some ClientError \<longrightarrow>
              fst (receive_event e w event) = Inr \<lparr>statusCode = 200, body = ''Success''\<rparr>)
           \<and> (sns_publish e (json_dumps e parsed) = Some err \<and> err \<noteq> ClientError \<longrightarrow>
              fst (receive_event e w event) = Inl err))
       \<and> (t \<noteq> JStr ''activity'' \<longrightarrow>
           receive_event e w event = (Inr \<lparr>statusCode = 200, body = ''Success''\<rparr>, w))"
  using assms by (auto simp: receive_event_def record_call_def Let_def split: option.splits)

theorem receive_event_publish_witness:
  "sns_publish example_env dumped_text = Some ClientError
   \<and> receive_event example_env example_world
       \<lparr>queryStringParameters = PyNone, event_body = Entry received_text\<rparr> =
       (Inr \<lparr>statusCode = 200, body = ''Success''\<rparr>,
        example_world\<lparr>calls := [SnsPublish ''topic'' dumped_text]\<rparr>)
   \<and> receive_event reachable_env example_world
       \<lparr>queryStringParameters = PyNone, event_body = Entry received_text\<rparr> =
       (Inr \<lparr>statusCode = 200, body = ''Success''\<rparr>,
        example_world\<lparr>calls := [SnsPublish ''topic'' dumped_text]\<rparr>)
   \<and> receive_event example_env example_world
       \<lparr>queryStringParameters = PyNone, event_body = Entry athlete_text\<rparr> =
       (Inr \<lparr>statusCode = 200, body = ''Success''\<rparr>, example_world)"
proof -
  let ?act = "\<lparr>queryStringParameters = PyNone, event_body = Entry received_text\<rparr>"
  let ?ath = "\<lparr>queryStringParameters = PyNone, event_body = Entry athlete_text\<rparr>"
  have a: "json_loads example_env received_text = Some example_body"
    "json_loads reachable_env received_text = Some example_body"
    and b: "json_loads example_env athlete_text = Some (JObj [(''object_type'', JStr ''athlete'')])"
    by (simp_all add: example_json reachable_env_def)
  have c: "py_getitem example_body ''object_type'' = Inr (JStr ''activity'')"
    and d: "py_getitem (JObj [(''object_type'', JStr ''athlete'')]) ''object_type'' = Inr (JStr ''athlete'')"
    by (simp_all add: example_body_def)
  have e: "event_body ?act = Entry received_text" and f: "event_body ?ath = Entry athlete_text"
    by simp_all
  have g: "sns_client example_env = None" "sns_client reachable_env = None"
    "sns_publish example_env m = Some ClientError" "sns_publish reachable_env m = None"
    "ACTIVITY_TOPIC_ARN example_env = ''topic''" "ACTIVITY_TOPIC_ARN reachable_env = ''topic''"
    "json_dumps reachable_env example_body = dumped_text" "calls example_world = []" for m
    by (simp_all add: example_json reachable_env_def) (simp_all add: example_env_def example_world_def)
  have r1: "receive_event example_env example_world ?act =
       (Inr \<lparr>statusCode = 200, body = ''Success''\<rparr>,
        example_world\<lparr>calls := [SnsPublish ''topic'' dumped_text]\<rparr>)"
    using receive_event_publish [OF e a(1) c, of example_world]
    by (simp add: g example_json prod_eq_iff)
  have r2: "receive_event reachable_env example_world ?act =
       (Inr \<lparr>statusCode = 200, body = ''Success''\<rparr>,
        example_world\<lparr>calls := [SnsPublish ''topic'' dumped_text]\<rparr>)"
    using receive_event_publish [OF e a(2) c, of example_world]
    by (simp add: g prod_eq_iff)
  have r3: "receive_event example_env example_world ?ath =
       (Inr \<lparr>statusCode = 200, body = ''Success''\<rparr>, example_world)"
    using receive_event_publish [OF f b d, of example_world] by simp
  show ?thesis using r1 r2 r3 by (simp add: g)
qed

text \<open>
  A body received without spaces is published in the text \<^verbatim>\<open>json.dumps\<close> writes, which is
  not the text received; and when the publish call ends with a connection error the handler
  ends with that error, not with a response.
\<close>

theorem receive_event_publish_counterexample:
  "json_loads unreachable_env received_text = Some example_body
   \<and> py_getitem example_body ''object_type'' = Inr (JStr ''activity'')
   \<and> receive_event unreachable_env example_world
       \<lparr>queryStringParameters = PyNone, event_body = Entry received_text\<rparr> =
       (Inl EndpointConnectionError,
        example_world\<lparr>calls := [SnsPublish ''topic'' dumped_text]\<rparr>)
   \<and> dumped_text \<noteq> received_text"
proof -
  have a: "json_loads unreachable_env received_text = Some example_body"
    "json_dumps unreachable_env example_body = dumped_text"
    by (simp_all add: unreachable_env_def example_json)
  have c: "py_getitem example_body ''object_type'' = Inr (JStr ''activity'')"
    by (simp add: example_body_def)
  have g: "sns_client unreachable_env = None"
    "sns_publish unreachable_env m = Some EndpointConnectionError"
    "ACTIVITY_TOPIC_ARN unreachable_env = ''topic''" "calls example_world = []" for m
    by (simp_all add: unreachable_env_def) (simp_all add: example_env_def example_world_def)
  show ?thesis
    using json_texts_differ
    by (simp add: receive_event_def a c g record_call_def)
qed

section \<open>Credential resolver\<close>

text \<open>
  C3, as the code has it. For a stored credential the resolver refreshes exactly when
  \<open>expires_at < now\<close>: then it calls the token endpoint once, with the client id, the client
  secret and the stored refresh token, and when the answer has status 200 it overwrites the
  access token, the refresh token and the expiry of the stored item and returns the new
  access token. When \<open>now \<le> expires_at\<close> it makes no call, changes nothing and returns the
  stored access token.
\<close>

theorem get_token_refresh:
  assumes "users w a = Some item"
  shows "(of_int (expires_at item) < now e \<longrightarrow>
            calls (snd (get_token_for_athlete e w a)) =
              calls w @ [TokenRefresh (CLIENT_ID e) (CLIENT_SECRET e) (refresh_token item)]
            \<and> (status_code (oauth_token e (refresh_token item)) = 200 \<longrightarrow>
                 fst (get_token_for_athlete e w a) =
                   Inr (AccessToken (access_token (response_body (oauth_token e (refresh_token item)))))
                 \<and> users (snd (get_token_for_athlete e w a)) =
                     (users w)(a \<mapsto> item
                        \<lparr>access_token := access_token (response_body (oauth_token e (refresh_token item))),
                         refresh_token := refresh_token (response_body (oauth_token e (refresh_token item))),
                         expires_at := expires_at (response_body (oauth_token e (refresh_token item)))\<rparr>)))
       \<and> (now e \<le> of_int (expires_at item) \<longrightarrow>
            get_token_for_athlete e w a = (Inr (AccessToken (access_token item)), w))"
  using assms by (simp add: get_token_for_athlete_def record_call_def Let_def)

theorem get_token_refresh_witness:
  "calls (snd (get_token_for_athlete (example_env\<lparr>now := 1001\<rparr>) example_world 7)) =
     [TokenRefresh ''client'' ''secret'' ''r1'']
   \<and> fst (get_token_for_athlete (example_env\<lparr>now := 1001\<rparr>) example_world 7) =
       Inr (AccessToken ''new'')
   \<and> users (snd (get_token_for_athlete (example_env\<lparr>now := 1001\<rparr>) example_world 7)) =
       [7 \<mapsto> \<lparr>access_token = ''new'', refresh_token = ''r2'', expires_at = 5000\<rparr>]
   \<and> get_token_for_athlete (example_env\<lparr>now := 999\<rparr>) example_world 7 =
       (Inr (AccessToken ''old''), example_world)"
proof -
  have u: "users example_world 7 = Some example_credential"
    by (simp add: example_world_def)
  show ?thesis
    using get_token_refresh [OF u, of "example_env\<lparr>now := 1001\<rparr>"]
      get_token_refresh [OF u, of "example_env\<lparr>now := 999\<rparr>"]
    by (simp add: example_env_def example_world_def example_credential_def)
qed

text \<open>
  At \<open>now = expires_at\<close> the credential is not refreshed: the stored token is returned and
  no call is made.
\<close>

theorem get_token_at_expiry_counterexample:
  "users example_world 7 = Some example_credential
   \<and> of_int (expires_at example_credential) \<le> now example_env
   \<and> get_token_for_athlete example_env example_world 7 =
       (Inr (AccessToken ''old''), example_world)
   \<and> calls example_world = []"
  by (simp add: get_token_for_athlete_def example_env_def example_world_def
      example_credential_def)

text \<open>
  C2. When the refresh call answers with a status other than 200, the resolver returns the
  dictionary with that status and the message \<^verbatim>\<open>Failed to get updated token for athlete\<close>
  and raises nothing. The processor does not look at what the resolver returned: on a create
  or an update of an activity the next two calls it makes are the fetch of the activity and
  the fetch of the athlete, with the text of that dictionary as the bearer token.
\<close>

theorem refresh_failure_still_fetches:
  assumes "users w (owner_id ev) = Some item"
    and "of_int (expires_at item) < now e"
    and "status_code (oauth_token e (refresh_token item)) \<noteq> 200"
    and "object_type ev = ''activity''"
    and "aspect_type ev = ''create'' \<or> aspect_type ev = ''update''"
  shows "get_token_for_athlete e w (owner_id ev) =
           (Inr (FailureResponse
                  \<lparr>statusCode = status_code (oauth_token e (refresh_token item)),
                   body = ''Failed to get updated token for athlete''\<rparr>),
            record_call (TokenRefresh (CLIENT_ID e) (CLIENT_SECRET e) (refresh_token item)) w)
       \<and> take 3 (drop (length (calls w)) (calls (snd (post_message e w ev)))) =
           [TokenRefresh (CLIENT_ID e) (CLIENT_SECRET e) (refresh_token item),
            GetActivity
              (bearer (FailureResponse
                 \<lparr>statusCode = status_code (oauth_token e (refresh_token item)),
                  body = ''Failed to get updated token for athlete''\<rparr>)) (object_id ev),
            GetAthlete
              (bearer (FailureResponse
                 \<lparr>statusCode = status_code (oauth_token e (refresh_token item)),
                  body = ''Failed to get updated token for athlete''\<rparr>))]"
proof -
  let ?r = "\<lparr>statusCode = status_code (oauth_token e (refresh_token item)),
             body = ''Failed to get updated token for athlete''\<rparr>"
  let ?w1 = "record_call (TokenRefresh (CLIENT_ID e) (CLIENT_SECRET e) (refresh_token item)) w"
  have g: "get_token_for_athlete e w (owner_id ev) = (Inr (FailureResponse ?r), ?w1)"
    using assms(1-3) by (simp add: get_token_for_athlete_def Let_def)
  obtain rest where
    "calls (snd (post_message e w ev)) =
       calls ?w1 @ [GetActivity (bearer (FailureResponse ?r)) (object_id ev),
                    GetAthlete (bearer (FailureResponse ?r))] @ rest"
    using post_message_after_token [OF g assms(4,5)] by blast
  then have "calls (snd (post_message e w ev)) =
       calls w @ [TokenRefresh (CLIENT_ID e) (CLIENT_SECRET e) (refresh_token item),
                  GetActivity (bearer (FailureResponse ?r)) (object_id ev),
                  GetAthlete (bearer (FailureResponse ?r))] @ rest"
    by (simp add: record_call_def)
  then show ?thesis using g by simp
qed

theorem refresh_failure_still_fetches_witness:
  "get_token_for_athlete failing_env example_world 7 =
     (Inr (FailureResponse
            \<lparr>statusCode = 401, body = ''Failed to get updated token for athlete''\<rparr>),
      example_world\<lparr>calls := [TokenRefresh ''client'' ''secret'' ''r1'']\<rparr>)
   \<and> post_message failing_env example_world (example_event ''activity'' ''create'') =
     (Inl KeyError,
      example_world
        \<lparr>calls :=
           [TokenRefresh ''client'' ''secret'' ''r1'',
            GetActivity
              (bearer (FailureResponse
                 \<lparr>statusCode = 401, body = ''Failed to get updated token for athlete''\<rparr>)) 42,
            GetAthlete
              (bearer (FailureResponse
                 \<lparr>statusCode = 401, body = ''Failed to get updated token for athlete''\<rparr>))]\<rparr>)
   \<and> bearer (FailureResponse
                 \<lparr>statusCode = 401, body = ''Failed to get updated token for athlete''\<rparr>) =
       ''Bearer {'' @ [CHR 0x27] @ ''statusCode'' @ [CHR 0x27] @ '': 401, '' @ [CHR 0x27]
       @ ''body'' @ [CHR 0x27] @ '': '' @ [CHR 0x27] @ ''Failed to get updated token for athlete''
       @ [CHR 0x27] @ ''}''"
proof -
  let ?ev = "example_event ''activity'' ''create''"
  let ?r = "\<lparr>statusCode = 401, body = ''Failed to get updated token for athlete''\<rparr>"
  have u: "users example_world (owner_id ?ev) = Some example_credential"
    by (simp add: example_world_def example_event_def)
  have x: "of_int (expires_at example_credential) < now failing_env"
    by (simp add: failing_env_def example_credential_def)
  have s: "status_code (oauth_token failing_env (refresh_token example_credential)) \<noteq> 200"
    by (simp add: failing_env_def)
  have t: "object_type ?ev = ''activity''"
    and a: "aspect_type ?ev = ''create'' \<or> aspect_type ?ev = ''update''"
    by (simp_all add: example_event_def)
  have g: "get_token_for_athlete failing_env example_world 7 =
     (Inr (FailureResponse ?r),
      example_world\<lparr>calls := [TokenRefresh ''client'' ''secret'' ''r1'']\<rparr>)"
    using refresh_failure_still_fetches [OF u x s t a]
    by (simp add: failing_env_def example_env_def example_world_def example_event_def
        example_credential_def record_call_def)
  have b: "bearer (FailureResponse ?r) =
       ''Bearer {'' @ [CHR 0x27] @ ''statusCode'' @ [CHR 0x27] @ '': 401, '' @ [CHR 0x27]
       @ ''body'' @ [CHR 0x27] @ '': '' @ [CHR 0x27] @ ''Failed to get updated token for athlete''
       @ [CHR 0x27] @ ''}''"
    by (simp add: bearer_def py_str_response_def str_eval)
  have h: "bearer (FailureResponse ?r) \<noteq> ''Bearer old''"
    "bearer (FailureResponse ?r) \<noteq> ''Bearer new''"
    by (simp_all add: bearer_def py_str_response_def)
  have n: "api_activity failing_env (bearer (FailureResponse ?r)) 42 = None"
    using h by (simp add: failing_env_def example_env_def)
  have k: "build_webhook_message failing_env w (FailureResponse ?r) 42 =
             (Inl KeyError,
              record_call (GetAthlete (bearer (FailureResponse ?r)))
                (record_call (GetActivity (bearer (FailureResponse ?r)) 42) w))" for w
    using n by (simp add: build_webhook_message_def Let_def)
  have p: "post_message failing_env example_world ?ev =
     (Inl KeyError,
      example_world
        \<lparr>calls :=
           [TokenRefresh ''client'' ''secret'' ''r1'',
            GetActivity (bearer (FailureResponse ?r)) 42,
            GetAthlete (bearer (FailureResponse ?r))]\<rparr>)"
    using g by (simp add: post_message_def example_event_def k record_call_def)
  show ?thesis using g p b by simp
qed

section \<open>Posting and editing\<close>

text \<open>
  C1. An update event for an activity without a delivery record reaches the fallback of
  \<^verbatim>\<open>update_or_repost_webhook\<close>, the call \<^verbatim>\<open>post_webhook(embed)\<close>, which raises
  \<^verbatim>\<open>TypeError\<close>: no message is sent and no record is written. The create event for the same
  activity sends the message and writes the record.
\<close>

theorem update_without_record_raises:
  "post_message example_env example_world (example_event ''activity'' ''update'') =
     (Inl TypeError,
      example_world\<lparr>calls := [GetActivity ''Bearer old'' 42, GetAthlete ''Bearer old'']\<rparr>)
   \<and> post_message example_env example_world (example_event ''activity'' ''create'') =
     (Inr 200,
      example_world
        \<lparr>messages := [42 \<mapsto> \<lparr>activity_id = 42, message_id = 902\<rparr>],
         calls := [GetActivity ''Bearer old'' 42, GetAthlete ''Bearer old'',
                   WebhookSend ''*A new activity was posted to Strava*'' ''Strava Webhook''
                     ''https://d3nn82uaxijpm6.cloudfront.net/mstile-144x144.png?v=dLlWydWlG8''
                     example_embed]\<rparr>)"
proof -
  have g: "get_token_for_athlete example_env example_world 7 =
             (Inr (AccessToken ''old''), example_world)"
    using get_token_example [of "messages example_world"] by simp
  have m: "messages example_world 42 = None" "calls example_world = []"
    by (simp_all add: example_world_def)
  have i: "webhook_message_id example_env cs = 900 + int (length cs)" for cs
    by (simp add: example_env_def)
  show ?thesis
    by (simp add: post_message_def example_event_def g build_example
        update_or_repost_webhook_fallback post_webhook_call_def post_webhook_def
        record_call_def m i Let_def)
      (simp add: example_world_def)
qed

text \<open>
  C8. For an update event whose activity has a delivery record with a non-zero message
  id, once the credentials are resolved and the message is built, the processor submits
  one edit against the stored message id and returns 200; the messages table is the one
  it started with.
\<close>

theorem update_edits_in_place:
  assumes "object_type ev = ''activity''" and "aspect_type ev = ''update''"
    and "get_token_for_athlete e w (owner_id ev) = (Inr token, w1)"
    and "build_webhook_message e w1 token (object_id ev) = (Inr em, w2)"
    and "messages w (object_id ev) = Some r" and "message_id r \<noteq> 0"
  shows "post_message e w ev = (Inr 200, record_call (WebhookEdit (message_id r) em) w2)
       \<and> messages (snd (post_message e w ev)) = messages w"
proof -
  have w1: "messages w1 = messages w"
    using get_token_for_athlete_messages [of e w "owner_id ev"] assms(3) by simp
  have w2: "messages w2 = messages w1"
    using build_webhook_message_world [of e w1 token "object_id ev"] assms(4)
    by (simp add: record_call_def)
  have "messages w2 (object_id ev) = Some r" using assms(5) w1 w2 by simp
  then have "update_or_repost_webhook e w2 (object_id ev) em =
               (Inr (), record_call (WebhookEdit (message_id r) em) w2)"
    using assms(6) by (rule update_or_repost_webhook_edit)
  then show ?thesis
    using assms(1-4) w1 w2 by (simp add: post_message_def record_call_def)
qed

theorem update_edits_in_place_witness:
  "post_message example_env
     (example_world\<lparr>messages := [42 \<mapsto> \<lparr>activity_id = 42, message_id = 555\<rparr>]\<rparr>)
     (example_event ''activity'' ''update'') =
     (Inr 200,
      example_world
        \<lparr>messages := [42 \<mapsto> \<lparr>activity_id = 42, message_id = 555\<rparr>],
         calls := [GetActivity ''Bearer old'' 42, GetAthlete ''Bearer old'',
                   WebhookEdit 555 example_embed]\<rparr>)"
proof -
  let ?w = "example_world\<lparr>messages := [42 \<mapsto> \<lparr>activity_id = 42, message_id = 555\<rparr>]\<rparr>"
  let ?ev = "example_event ''activity'' ''update''"
  have a: "object_type ?ev = ''activity''" and b: "aspect_type ?ev = ''update''"
    by (simp_all add: example_event_def)
  have c: "get_token_for_athlete example_env ?w (owner_id ?ev) = (Inr (AccessToken ''old''), ?w)"
    using get_token_example by (simp add: example_event_def)
  have d: "build_webhook_message example_env ?w (AccessToken ''old'') (object_id ?ev) =
             (Inr example_embed,
              record_call (GetAthlete ''Bearer old'') (record_call (GetActivity ''Bearer old'' 42) ?w))"
    using build_example by (simp add: example_event_def)
  have e: "messages ?w (object_id ?ev) = Some \<lparr>activity_id = 42, message_id = 555\<rparr>"
    by (simp add: example_event_def)
  have f: "message_id \<lparr>activity_id = 42, message_id = 555\<rparr> \<noteq> 0" by simp
  show ?thesis
    using update_edits_in_place [OF a b c d e f]
    by (simp add: record_call_def example_world_def)
qed

section \<open>The processor\<close>

text \<open>
  C10. The processor resolves the credentials of the owner before it looks at the kind of
  the event, and nothing after the resolver writes the users table: for every event the
  users table it leaves is the one the resolver leaves. For an event that is not a create or
  an update of an activity the world it leaves is exactly the one the resolver leaves, so a
  refresh may have rewritten the stored credential, while the messages table is the one it
  started with and no call reaches the chat destination.
\<close>

theorem noop_event_touches_only_credentials:
  "users (snd (post_message e w ev)) = users (snd (get_token_for_athlete e w (owner_id ev)))
   \<and> (\<not> (object_type ev = ''activity''
           \<and> (aspect_type ev = ''create'' \<or> aspect_type ev = ''update'')) \<longrightarrow>
        snd (post_message e w ev) = snd (get_token_for_athlete e w (owner_id ev))
        \<and> messages (snd (post_message e w ev)) = messages w
        \<and> filter is_chat_call (calls (snd (post_message e w ev))) = filter is_chat_call (calls w))"
proof -
  have p: "snd (post_message e w ev) = snd (get_token_for_athlete e w (owner_id ev))"
    if "\<not> (object_type ev = ''activity''
              \<and> (aspect_type ev = ''create'' \<or> aspect_type ev = ''update''))"
    using that by (auto simp: post_message_def split: prod.splits sum.splits)
  show ?thesis
    using p post_message_users [of e w ev] get_token_for_athlete_messages [of e w "owner_id ev"]
      get_token_for_athlete_chat_calls [of e w "owner_id ev"]
    by simp
qed

theorem noop_event_touches_only_credentials_witness:
  "users example_world 7
     = Some \<lparr>access_token = ''old'', refresh_token = ''r1'', expires_at = 1000\<rparr>
   \<and> post_message (example_env\<lparr>now := 1001\<rparr>) example_world (example_event ''activity'' ''delete'') =
     (Inr 200,
      example_world
        \<lparr>users := [7 \<mapsto> \<lparr>access_token = ''new'', refresh_token = ''r2'', expires_at = 5000\<rparr>],
         calls := [TokenRefresh ''client'' ''secret'' ''r1'']\<rparr>)
   \<and> post_message (example_env\<lparr>now := 1001\<rparr>) example_world (example_event ''athlete'' ''update'') =
     (Inr 200,
      example_world
        \<lparr>users := [7 \<mapsto> \<lparr>access_token = ''new'', refresh_token = ''r2'', expires_at = 5000\<rparr>],
         calls := [TokenRefresh ''client'' ''secret'' ''r1'']\<rparr>)
   \<and> messages (snd (post_message (example_env\<lparr>now := 1001\<rparr>) example_world
                      (example_event ''activity'' ''delete''))) = messages example_world
   \<and> filter is_chat_call (calls (snd (post_message (example_env\<lparr>now := 1001\<rparr>) example_world
                      (example_event ''activity'' ''delete'')))) = []"
proof -
  let ?ev = "example_event ''activity'' ''delete''"
  let ?w = "example_world
        \<lparr>users := [7 \<mapsto> \<lparr>access_token = ''new'', refresh_token = ''r2'', expires_at = 5000\<rparr>],
         calls := [TokenRefresh ''client'' ''secret'' ''r1'']\<rparr>"
  have h: "\<not> (object_type ?ev = ''activity''
              \<and> (aspect_type ?ev = ''create'' \<or> aspect_type ?ev = ''update''))"
    by (simp add: example_event_def)
  have p: "post_message (example_env\<lparr>now := 1001\<rparr>) example_world (example_event t a) = (Inr 200, ?w)"
    if "t = ''athlete'' \<or> a = ''delete''" for t a
    using that
    by (auto simp add: post_message_def example_event_def get_token_for_athlete_def example_env_def
        example_world_def example_credential_def record_call_def)
  have g: "get_token_for_athlete (example_env\<lparr>now := 1001\<rparr>) example_world (owner_id ?ev) =
     (Inr (AccessToken ''new''), ?w)"
    by (simp add: example_event_def get_token_for_athlete_def example_env_def
        example_world_def example_credential_def record_call_def)
  have c: "calls example_world = []" "messages example_world = Map.empty"
    "users example_world 7
     = Some \<lparr>access_token = ''old'', refresh_token = ''r1'', expires_at = 1000\<rparr>"
    by (simp_all add: example_world_def example_credential_def)
  show ?thesis
    using noop_event_touches_only_credentials [of "example_env\<lparr>now := 1001\<rparr>" example_world ?ev] h
    by (simp add: p g c is_chat_call_def)
qed

section \<open>Building the display message\<close>

text \<open>
  C9. When the provider answers with an activity whose distance is a float of magnitude
  below 5 (metres), the displayed distance is zero and building the message raises an
  arithmetic error: \<^verbatim>\<open>ZeroDivisionError\<close> from the division by the displayed distance, for
  every moving time that \<^verbatim>\<open>moving_time / 60\<close> can convert to a float (otherwise that
  conversion raises \<^verbatim>\<open>OverflowError\<close> first). The pace is computed for every activity
  type, so this holds for the types shown with a pace as for the others. With a displayed
  distance other than zero the pace computation does not raise \<^verbatim>\<open>ZeroDivisionError\<close>.
\<close>

theorem short_distance_fails:
  assumes "api_activity e (bearer token) obj = Some a"
    and "distance a = Finite s d" and "binary64 d" and "d < 5"
  shows "activity_distance_km a = Inr (Finite s 0)
       \<and> fst (build_webhook_message e w token obj) =
           Inl (if 2 ^ 1024 \<le> rnd64 (of_int \<bar>moving_time a\<bar> / 60)
                then OverflowError else ZeroDivisionError)
       \<and> (\<bar>moving_time a\<bar> < 2 ^ 1024 \<longrightarrow>
            fst (build_webhook_message e w token obj) = Inl ZeroDivisionError)
       \<and> (k \<noteq> 0 \<longrightarrow> activity_pace (Finite s' k) mt \<noteq> Inl ZeroDivisionError)"
proof -
  have km: "activity_distance_km a = Inr (Finite s 0)"
    using assms(2-4) by (rule short_distance_km)
  have b: "fst (build_webhook_message e w token obj) =
           Inl (if 2 ^ 1024 \<le> rnd64 (of_int \<bar>moving_time a\<bar> / 60)
                then OverflowError else ZeroDivisionError)"
    by (simp add: build_webhook_message_def Let_def assms(1) km activity_pace_zero_distance)
  show ?thesis
    using km b moving_time_in_range [of "moving_time a"] activity_pace_nonzero_distance [of k s' mt]
    by simp
qed

theorem short_distance_fails_witness:
  "act_type short_activity \<notin> set use_speed
   \<and> activity_distance_km short_activity = Inr (Finite False 0)
   \<and> fst (build_webhook_message short_env example_world (AccessToken ''old'') 42) =
       Inl ZeroDivisionError
   \<and> activity_pace (Finite False 5) 1500 \<noteq> Inl ZeroDivisionError
   \<and> activity_distance_km (example_activity\<lparr>distance := Finite False 5\<rparr>) =
       Inr (Finite False (5764607523034235 / 576460752303423488))"
proof -
  have a: "api_activity short_env (bearer (AccessToken ''old'')) 42 = Some short_activity"
    by (simp add: short_env_def)
  have d: "distance short_activity = Finite False 3"
    by (simp add: short_activity_def)
  have b: "binary64 3"
    by (simp add: binary64_def rnd64_numeral)
  have m: "moving_time short_activity = 1500" "act_type short_activity = ''Run''"
    by (simp_all add: short_activity_def example_activity_def)
  have f: "activity_distance_km (example_activity\<lparr>distance := Finite False 5\<rparr>) =
       Inr (Finite False (5764607523034235 / 576460752303423488))"
    by (simp add: activity_distance_km_def to_float_def rnd64_eval [where k = "- 8"]
        rnd64_eval [where k = "- 7"] rnd_eval)
  show ?thesis
    using short_distance_fails [OF a d b, where k = 5 and s' = False and mt = 1500 and w = example_world] f
    by (simp add: m use_speed_def rnd64_numeral)
qed



text \<open>
  C4. For an activity whose distance is a float that is not negative and whose displayed
  distance is positive, with a moving time from 0 up to \<open>2 ^ 1000\<close> seconds, the pace the
  code computes is the one the specification describes, no step of it raises, and the
  seconds field is an integer from 0 to 60 printed with two digits. A distance of 5000 m is
  displayed as 5 km, and with a moving time of 1500 s the pace is \<^verbatim>\<open>5:00\<close>.
\<close>

theorem pace_two_step_rounding:
  assumes "distance a = Finite False d" and "0 \<le> d"
    and "activity_distance_km a = Inr (Finite False km)" and "0 < km"
    and "0 \<le> moving_time a" and "moving_time a < 2 ^ 1000"
  shows "activity_pace (Finite False km) (moving_time a) = Inr (spec_pace (moving_time a) km)
       \<and> 0 \<le> spec_pace_seconds (spec_raw_pace (moving_time a) km
                                   - of_int \<lfloor>spec_raw_pace (moving_time a) km\<rfloor>)
       \<and> spec_pace_seconds (spec_raw_pace (moving_time a) km
                             - of_int \<lfloor>spec_raw_pace (moving_time a) km\<rfloor>) \<le> 60
       \<and> length (format_02d (spec_pace_seconds
                    (spec_raw_pace (moving_time a) km
                     - of_int \<lfloor>spec_raw_pace (moving_time a) km\<rfloor>))) = 2
       \<and> activity_distance_km (b\<lparr>distance := Finite False 5000\<rparr>) = Inr (Finite False 5)
       \<and> activity_pace (Finite False 5) 1500 = Inr ''5:00''"
proof -
  define f where "f = spec_raw_pace (moving_time a) km
                       - of_int \<lfloor>spec_raw_pace (moving_time a) km\<rfloor>"
  have k: "1 / 100 \<le> km"
    using assms(1-4) by (rule displayed_distance_positive)
  have p: "activity_pace (Finite False km) (moving_time a) = Inr (spec_pace (moving_time a) km)"
    using assms(5,6) k by (rule activity_pace_two_step)
  have f: "0 \<le> f" "f < 1" unfolding f_def by linarith+
  have r: "0 \<le> spec_pace_seconds f" "spec_pace_seconds f \<le> 60"
    using spec_pace_seconds_range [OF f] by simp_all
  then have l: "length (format_02d (spec_pace_seconds f)) = 2"
    by (simp add: length_format_02d)
  have v: "activity_distance_km (b\<lparr>distance := Finite False 5000\<rparr>) = Inr (Finite False 5)"
    by (simp add: activity_distance_km_def to_float_def rnd64_numeral round_half_even_def)
  show ?thesis using p r l v example_pace by (simp add: f_def)
qed

theorem pace_two_step_rounding_witness:
  "activity_pace (Finite False 5) (moving_time example_activity) = Inr ''5:00''
   \<and> activity_pace (Finite False 5) (moving_time (example_activity\<lparr>moving_time := 1645\<rparr>))
       = Inr ''5:28''"
proof -
  let ?b = "example_activity\<lparr>moving_time := 1645\<rparr>"
  have d: "distance example_activity = Finite False 5000" "distance ?b = Finite False 5000"
    and m: "moving_time example_activity = 1500" "moving_time ?b = 1645"
    by (simp_all add: example_activity_def)
  have k: "activity_distance_km example_activity = Inr (Finite False 5)"
    "activity_distance_km ?b = Inr (Finite False 5)"
    by (simp_all add: activity_distance_km_def d to_float_def rnd64_numeral round_half_even_def)
  have z: "(0::rat) \<le> 5000" "(0::rat) < 5" by simp_all
  have r1: "0 \<le> moving_time example_activity" "moving_time example_activity < 2 ^ 1000"
    and r2: "0 \<le> moving_time ?b" "moving_time ?b < 2 ^ 1000"
    by (simp_all add: m)
  show ?thesis
    using pace_two_step_rounding [OF d(1) z(1) k(1) z(2) r1]
      pace_two_step_rounding [OF d(2) z(1) k(2) z(2) r2]
    by (simp add: m spec_pace_1500_5 spec_pace_1645_5)
qed

end
